theory Spec2Isabelle
  imports Main "HOL-Library.Sublist" "HOL-Library.AList" "HOL-Library.Word"
begin
section \<open>JavaScript values and string operations\<close>

text \<open>
  The normalizers read documents that \<^verbatim>\<open>JSON.parse\<close> has already turned into objects.
  Fields the code reads are typed as the OpenAPI and Postman formats declare them; a field
  that may be absent is an \<open>option\<close> (\<open>None\<close> is JavaScript's \<^verbatim>\<open>undefined\<close>).
  Payloads the code only copies (examples, property tables, security requirements) are
  values of \<open>json\<close>. Strings are byte strings; case conversion acts on ASCII letters.
\<close>

datatype json =
    JNull
  | JBool bool
  | JNum int
  | JStr string
  | JArr "json list"
  | JObj "(string \<times> json) list"

fun truthy :: "json \<Rightarrow> bool" where
  "truthy JNull = False"
| "truthy (JBool b) = b"
| "truthy (JNum n) = (n \<noteq> 0)"
| "truthy (JStr s) = (s \<noteq> [])"
| "truthy (JArr xs) = True"
| "truthy (JObj kvs) = True"

text \<open>\<^verbatim>\<open>a || d\<close> for a string that may be absent: the empty string is falsy.\<close>

definition or_str :: "string option \<Rightarrow> string \<Rightarrow> string" where
  "or_str a d = (case a of None \<Rightarrow> d | Some s \<Rightarrow> if s = [] then d else s)"

definition or_bool :: "bool option \<Rightarrow> bool \<Rightarrow> bool" where
  "or_bool a d = (case a of None \<Rightarrow> d | Some b \<Rightarrow> if b then True else d)"

text \<open>\<^verbatim>\<open>a || []\<close> and \<^verbatim>\<open>a || {}\<close>: arrays and objects are always truthy.\<close>

definition or_list :: "'a list option \<Rightarrow> 'a list" where
  "or_list a = (case a of None \<Rightarrow> [] | Some xs \<Rightarrow> xs)"

definition or_json :: "json option \<Rightarrow> json option \<Rightarrow> json option" where
  "or_json a b = (case a of None \<Rightarrow> b | Some v \<Rightarrow> if truthy v then Some v else b)"

definition upper_letters :: string where
  "upper_letters = ''ABCDEFGHIJKLMNOPQRSTUVWXYZ''"

definition lower_letters :: string where
  "lower_letters = ''abcdefghijklmnopqrstuvwxyz''"

definition digits :: string where
  "digits = ''0123456789''"

text \<open>
  \<^verbatim>\<open>s.toLowerCase()\<close> and \<^verbatim>\<open>s.toUpperCase()\<close> on strings of ASCII characters, which is
  what the strings of the model are taken to be: only the letters \<^verbatim>\<open>A-Z\<close> and \<^verbatim>\<open>a-z\<close>
  change. (The platform also maps letters above U+007F, some of them to characters
  outside the type \<open>char\<close>.)
\<close>

definition toLowerCase :: "string \<Rightarrow> string" where
  "toLowerCase s =
     map (\<lambda>c. case map_of (zip upper_letters lower_letters) c of Some d \<Rightarrow> d | None \<Rightarrow> c) s"

definition toUpperCase :: "string \<Rightarrow> string" where
  "toUpperCase s =
     map (\<lambda>c. case map_of (zip lower_letters upper_letters) c of Some d \<Rightarrow> d | None \<Rightarrow> c) s"

definition startsWith :: "string \<Rightarrow> string \<Rightarrow> bool" where
  "startsWith s p = prefix p s"

text \<open>\<^verbatim>\<open>s.includes(p)\<close>: \<open>p\<close> occurs in \<open>s\<close> as a contiguous substring.\<close>

fun str_includes :: "string \<Rightarrow> string \<Rightarrow> bool" where
  "str_includes [] p = (p = [])"
| "str_includes (c # cs) p = (prefix p (c # cs) \<or> str_includes cs p)"

text \<open>\<^verbatim>\<open>xs.join(sep)\<close>\<close>

fun join :: "string \<Rightarrow> string list \<Rightarrow> string" where
  "join sep [] = []"
| "join sep [x] = x"
| "join sep (x # y # ys) = x @ sep @ join sep (y # ys)"

text \<open>The character class \<^verbatim>\<open>[a-zA-Z0-9]\<close>.\<close>

definition is_alnum :: "char \<Rightarrow> bool" where
  "is_alnum c = (c \<in> set (lower_letters @ upper_letters @ digits))"

text \<open>\<^verbatim>\<open>s.replace(/[^a-zA-Z0-9]/g, '_')\<close>\<close>

definition replace_non_alnum :: "string \<Rightarrow> string" where
  "replace_non_alnum s = map (\<lambda>c. if is_alnum c then c else CHR ''_'') s"

text \<open>
  The members of the character class \<^verbatim>\<open>\\s\<close> among the characters of the type \<open>char\<close>,
  which are the white space that \<^verbatim>\<open>s.trim()\<close> removes: the six ASCII blanks and the
  no-break space U+00A0. The other members of the class lie above U+00FF.
\<close>

definition is_blank :: "char \<Rightarrow> bool" where
  "is_blank c =
     (c \<in> set [CHR '' '', CHR 0x09, CHR 0x0A, CHR 0x0B, CHR 0x0C, CHR 0x0D, CHR 0xA0])"

definition trim :: "string \<Rightarrow> string" where
  "trim s = rev (dropWhile is_blank (rev (dropWhile is_blank s)))"

section \<open>The canonical model\<close>

record auth_method =
  am_type :: string
  am_name :: "string option"
  am_in :: "string option"
  am_description :: "string option"

record parameter =
  p_name :: "string option"
  p_in :: string
  p_required :: bool
  p_type :: string
  p_description :: string
  p_example :: "json option"
  p_format :: "string option"
  p_enum :: "json list option"

record schema_sketch =
  sk_type :: "string option"
  sk_properties :: "(string \<times> json) list"
  sk_required :: "string list option"
  sk_example :: "json option"

record body =
  b_required :: bool
  b_mediaType :: string
  b_schema :: schema_sketch

record response =
  r_description :: string
  r_mediaType :: string
  r_schema :: "schema_sketch option"

record endpoint =
  ep_method :: string
  ep_path :: string
  ep_fullUrl :: string
  ep_summary :: string
  ep_description :: string
  ep_operationId :: string
  ep_parameters :: "parameter list"
  ep_requestBody :: "body option"
  ep_responses :: "(string \<times> response) list"
  ep_security :: "json list"
  ep_tags :: "string list"

record api_data =
  baseUrl :: string
  authMethod :: auth_method
  endpoints :: "endpoint list"
  title :: string
  version :: string
  description :: string

definition auth_none :: auth_method where
  "auth_none = \<lparr>am_type = ''none'', am_name = None, am_in = None, am_description = None\<rparr>"

section \<open>The OpenAPI/Swagger normalizer (swaggerParser.js)\<close>

record security_scheme =
  ss_type :: "string option"
  ss_scheme :: "string option"
  ss_name :: "string option"
  ss_in :: "string option"
  ss_description :: "string option"

record schema_object =
  so_type :: "string option"
  so_properties :: "(string \<times> json) list option"
  so_required :: "string list option"
  so_example :: "json option"
  so_format :: "string option"
  so_enum :: "json list option"

record oa_parameter =
  prm_name :: "string option"
  prm_in :: string
  prm_required :: "bool option"
  prm_schema :: "schema_object option"
  prm_description :: "string option"
  prm_example :: "json option"

record media_type_object =
  mt_schema :: "schema_object option"
  mt_example :: "json option"

record request_body_object =
  rb_content :: "(string \<times> media_type_object) list option"
  rb_required :: "bool option"

record response_object =
  ro_description :: "string option"
  ro_content :: "(string \<times> media_type_object) list option"

record operation =
  op_summary :: "string option"
  op_description :: "string option"
  op_operationId :: "string option"
  op_parameters :: "oa_parameter list option"
  op_requestBody :: "request_body_object option"
  op_responses :: "(string \<times> response_object) list option"
  op_security :: "json list option"
  op_tags :: "string list option"

record oa_info =
  info_title :: "string option"
  info_version :: "string option"
  info_description :: "string option"

text \<open>
  An object is the list of its entries in the order \<^verbatim>\<open>Object.entries\<close> and
  \<^verbatim>\<open>Object.keys\<close> enumerate them. A path item lists every member of the source
  object; the value of a member that is not an HTTP verb is never read.
\<close>

record openapi =
  oa_servers :: "string option list option"
  oa_host :: "string option"
  oa_securitySchemes :: "(string \<times> security_scheme) list option"
  oa_paths :: "(string \<times> (string \<times> operation) list) list option"
  oa_security :: "json list option"
  oa_info :: "oa_info option"

text \<open>\<^verbatim>\<open>api.servers?.[0]?.url\<close>: the url of the first server entry, if any.\<close>

definition first_server_url :: "openapi \<Rightarrow> string option" where
  "first_server_url api =
     (case oa_servers api of None \<Rightarrow> None | Some [] \<Rightarrow> None | Some (u # _) \<Rightarrow> u)"

text \<open>
  The body of the \<^verbatim>\<open>switch (scheme.type)\<close> for one scheme: the descriptor it returns, or
  \<open>None\<close> when the loop goes on to the next scheme.
\<close>

definition scheme_auth :: "security_scheme \<Rightarrow> auth_method option" where
  "scheme_auth scheme =
     (if ss_type scheme = Some ''http'' then
        (if ss_scheme scheme = Some ''bearer'' then
           Some \<lparr>am_type = ''bearer'', am_name = Some ''Authorization'', am_in = None,
                 am_description = ss_description scheme\<rparr>
         else if ss_scheme scheme = Some ''basic'' then
           Some \<lparr>am_type = ''basic'', am_name = Some ''Authorization'', am_in = None,
                 am_description = ss_description scheme\<rparr>
         else None)
      else if ss_type scheme = Some ''apiKey'' then
        Some \<lparr>am_type = ''apiKey'', am_name = ss_name scheme,
              am_in = Some (or_str (ss_in scheme) ''header''),
              am_description = ss_description scheme\<rparr>
      else if ss_type scheme = Some ''oauth2'' then
        Some \<lparr>am_type = ''oauth2'', am_name = Some ''Authorization'', am_in = None,
              am_description = ss_description scheme\<rparr>
      else None)"

text \<open>The \<^verbatim>\<open>for (const [name, scheme] of Object.entries(securitySchemes))\<close> loop.\<close>

fun scan_schemes :: "(string \<times> security_scheme) list \<Rightarrow> auth_method" where
  "scan_schemes [] = auth_none"
| "scan_schemes ((name, scheme) # rest) =
     (case scheme_auth scheme of Some a \<Rightarrow> a | None \<Rightarrow> scan_schemes rest)"

definition extractAuthMethod :: "openapi \<Rightarrow> auth_method" where
  "extractAuthMethod api = scan_schemes (or_list (oa_securitySchemes api))"

definition extractParameters :: "oa_parameter list \<Rightarrow> parameter list" where
  "extractParameters ps =
     map (\<lambda>param.
       \<lparr>p_name = prm_name param,
        p_in = prm_in param,
        p_required = or_bool (prm_required param) False,
        p_type = or_str (Option.bind (prm_schema param) so_type) ''string'',
        p_description = or_str (prm_description param) '''',
        p_example = or_json (prm_example param) (Option.bind (prm_schema param) so_example),
        p_format = Option.bind (prm_schema param) so_format,
        p_enum = Option.bind (prm_schema param) so_enum\<rparr>) ps"

text \<open>
  \<^verbatim>\<open>Object.keys(content)[0] || 'application/json'\<close>: the first key, unless the object has
  none or the first key is the empty string.
\<close>

definition first_media_type :: "(string \<times> media_type_object) list \<Rightarrow> string" where
  "first_media_type content =
     (case content of [] \<Rightarrow> ''application/json''
      | (k, v) # _ \<Rightarrow> if k = [] then ''application/json'' else k)"

definition extractRequestBody :: "request_body_object option \<Rightarrow> body option" where
  "extractRequestBody requestBody =
     (case requestBody of
        None \<Rightarrow> None
      | Some rb \<Rightarrow>
          (let content = or_list (rb_content rb);
               mediaType = first_media_type content;
               schema = Option.bind (map_of content mediaType) mt_schema
           in case schema of
                None \<Rightarrow> None
              | Some s \<Rightarrow>
                  Some \<lparr>b_required = or_bool (rb_required rb) False,
                        b_mediaType = mediaType,
                        b_schema =
                          \<lparr>sk_type = so_type s,
                           sk_properties = or_list (so_properties s),
                           sk_required = Some (or_list (so_required s)),
                           sk_example = Option.bind (map_of content mediaType) mt_example\<rparr>\<rparr>))"

text \<open>
  \<^verbatim>\<open>extracted[code] = ...\<close> in a loop over the entries: a later entry with the same code
  replaces the earlier one.
\<close>

definition extractResponses :: "(string \<times> response_object) list \<Rightarrow> (string \<times> response) list" where
  "extractResponses rs =
     foldl (\<lambda>extracted (code, resp).
        (let content = or_list (ro_content resp);
             mediaType = first_media_type content;
             schema = Option.bind (map_of content mediaType) mt_schema
         in AList.update code
              \<lparr>r_description = or_str (ro_description resp) '''',
               r_mediaType = mediaType,
               r_schema =
                 (case schema of
                    None \<Rightarrow> None
                  | Some s \<Rightarrow>
                      Some \<lparr>sk_type = so_type s,
                            sk_properties = or_list (so_properties s),
                            sk_required = None,
                            sk_example = Option.bind (map_of content mediaType) mt_example\<rparr>)\<rparr>
              extracted)) [] rs"

definition http_verbs :: "string list" where
  "http_verbs = [''get'', ''post'', ''put'', ''delete'', ''patch'', ''head'', ''options'']"

definition swagger_endpoint :: "openapi \<Rightarrow> string \<Rightarrow> string \<Rightarrow> operation \<Rightarrow> endpoint" where
  "swagger_endpoint api path verb operation =
     \<lparr>ep_method = toUpperCase verb,
      ep_path = path,
      ep_fullUrl = or_str (first_server_url api) '''' @ path,
      ep_summary = or_str (op_summary operation) '''',
      ep_description = or_str (op_description operation) '''',
      ep_operationId =
        or_str (op_operationId operation) (verb @ ''_'' @ replace_non_alnum path),
      ep_parameters = extractParameters (or_list (op_parameters operation)),
      ep_requestBody = extractRequestBody (op_requestBody operation),
      ep_responses = extractResponses (or_list (op_responses operation)),
      ep_security =
        (case op_security operation of Some s \<Rightarrow> s | None \<Rightarrow> or_list (oa_security api)),
      ep_tags = or_list (op_tags operation)\<rparr>"

text \<open>The two nested loops over paths and over the members of each path item.\<close>

definition swagger_extractEndpoints :: "openapi \<Rightarrow> endpoint list" where
  "swagger_extractEndpoints api =
     concat (map (\<lambda>(path, pathItem).
        concat (map (\<lambda>(verb, operation).
           if verb \<in> set http_verbs then [swagger_endpoint api path verb operation] else [])
         pathItem))
      (or_list (oa_paths api)))"

text \<open>
  \<open>parseSwagger\<close> receives what \<^verbatim>\<open>SwaggerParser.parse(JSON.parse(content))\<close> produced:
  the document, or the message of the error it threw.
\<close>

definition parseSwagger :: "string + openapi \<Rightarrow> string + api_data" where
  "parseSwagger parsed =
     (case parsed of
        Inl msg \<Rightarrow> Inl (''Failed to parse Swagger specification: '' @ msg)
      | Inr api \<Rightarrow>
          Inr \<lparr>baseUrl = or_str (first_server_url api) (or_str (oa_host api) ''''),
               authMethod = extractAuthMethod api,
               endpoints = swagger_extractEndpoints api,
               title = or_str (Option.bind (oa_info api) info_title) ''API'',
               version = or_str (Option.bind (oa_info api) info_version) ''1.0.0'',
               description = or_str (Option.bind (oa_info api) info_description) ''''\<rparr>)"

section \<open>The platform's URL constructor\<close>

text \<open>
  \<^verbatim>\<open>new URL(s)\<close> belongs to the platform, not to the repository. The normalizers take
  it as the parameter \<open>URL\<close>: the parts of the parsed URL they read, or \<open>None\<close> when the
  constructor throws.
\<close>

record url =
  url_protocol :: string
  url_host :: string
  url_pathname :: string

type_synonym url_constructor = "string \<Rightarrow> url option"

section \<open>The Postman normalizer (postmanParser.js)\<close>

record pm_variable =
  var_key :: "string option"
  var_value :: "string option"

text \<open>\<open>auth_apikey\<close> holds the \<^verbatim>\<open>key\<close> of each entry of \<^verbatim>\<open>auth.apikey\<close>.\<close>

record pm_auth =
  auth_type :: "string option"
  auth_apikey :: "string option list option"

text \<open>
  The collection is typed by the shapes the Postman collection format allows where the
  normalizer treats them differently: a URL is a string or an object, \<^verbatim>\<open>url.path\<close> is a
  string or an array whose segments are strings or objects, a \<^verbatim>\<open>header\<close> is a string or
  an array, a \<^verbatim>\<open>request\<close> is a string or an object. An entry of a header array that is a
  string has none of the fields. Strings are sequences of ASCII characters.
\<close>

record pm_header =
  hdr_key :: "string option"
  hdr_value :: "string option"
  hdr_description :: "string option"
  hdr_disabled :: "bool option"

datatype pm_headers = HeaderString string | HeaderList "pm_header list"

datatype pm_segment = SegmentString string | SegmentObject

datatype pm_path = PathString string | PathSegments "pm_segment list"

record pm_query =
  q_key :: "string option"
  q_value :: "string option"
  q_description :: "string option"
  q_disabled :: "bool option"

datatype pm_url =
    UrlString string
  | UrlObject (url_raw: "string option") (url_path: "pm_path option")
      (url_query: "pm_query list option")

record pm_field =
  fld_key :: "string option"
  fld_value :: "string option"
  fld_type :: "string option"

record pm_body =
  body_mode :: "string option"
  body_raw :: "string option"
  body_language :: "string option"
  body_urlencoded :: "pm_field list option"
  body_formdata :: "pm_field list option"

record pm_request =
  req_url :: "pm_url option"
  req_method :: "string option"
  req_header :: "pm_headers option"
  req_body :: "pm_body option"
  req_auth :: "pm_auth option"

record pm_response =
  resp_code :: "nat option"
  resp_name :: "string option"
  resp_header :: "pm_headers option"
  resp_body :: "string option"

datatype pm_request_value = RequestString string | RequestObject pm_request

text \<open>An entry of an \<^verbatim>\<open>item\<close> array: \<^verbatim>\<open>null\<close>, or an object that is a request, a folder or neither.\<close>

datatype pm_item =
    NullItem
  | Item (item_name: "string option") (item_description: "string option")
      (item_request: "pm_request_value option") (item_item: "pm_item list option")
      (item_response: "pm_response list option")

record pm_info =
  pinfo_name :: "string option"
  pinfo_schema :: "string option"
  pinfo_description :: "string option"

record pm_collection =
  col_variable :: "pm_variable list option"
  col_auth :: "pm_auth option"
  col_item :: "pm_item list option"
  col_info :: "pm_info option"

definition postman_extractBaseUrl :: "pm_collection \<Rightarrow> string" where
  "postman_extractBaseUrl collection =
     (case List.find (\<lambda>v. var_key v = Some ''baseUrl'' \<or> var_key v = Some ''BASE_URL''
                          \<or> var_key v = Some ''url'')
             (or_list (col_variable collection)) of
        None \<Rightarrow> ''''
      | Some baseUrlVar \<Rightarrow> or_str (var_value baseUrlVar) '''')"

text \<open>\<^verbatim>\<open>auth.apikey?.[0]?.key || 'X-API-Key'\<close>\<close>

definition apikey_name :: "pm_auth \<Rightarrow> string" where
  "apikey_name auth =
     or_str (case auth_apikey auth of None \<Rightarrow> None | Some [] \<Rightarrow> None | Some (k # _) \<Rightarrow> k)
       ''X-API-Key''"

definition postman_extractAuthMethod :: "pm_collection \<Rightarrow> auth_method" where
  "postman_extractAuthMethod collection =
     (case col_auth collection of
        None \<Rightarrow> auth_none
      | Some auth \<Rightarrow>
          if auth_type auth = Some ''bearer'' then
            \<lparr>am_type = ''bearer'', am_name = Some ''Authorization'', am_in = None,
             am_description = Some ''Bearer token authentication''\<rparr>
          else if auth_type auth = Some ''apikey'' then
            \<lparr>am_type = ''apiKey'', am_name = Some (apikey_name auth), am_in = Some ''header'',
             am_description = Some ''API Key authentication''\<rparr>
          else if auth_type auth = Some ''basic'' then
            \<lparr>am_type = ''basic'', am_name = Some ''Authorization'', am_in = None,
             am_description = Some ''Basic authentication''\<rparr>
          else if auth_type auth = Some ''oauth2'' then
            \<lparr>am_type = ''oauth2'', am_name = Some ''Authorization'', am_in = None,
             am_description = Some ''OAuth 2.0 authentication''\<rparr>
          else auth_none)"

text \<open>What \<open>extractHeaders\<close> returns for one header.\<close>

record header_entry =
  he_key :: "string option"
  he_value :: "string option"
  he_description :: string
  he_disabled :: bool

text \<open>
  \<^verbatim>\<open>extractHeaders(request.header || [])\<close>: an empty string is falsy and replaced by the
  empty array; on any other string \<^verbatim>\<open>headers.map\<close> is not a function and the call throws
  a \<^verbatim>\<open>TypeError\<close>.
\<close>

definition extractHeaders :: "pm_headers option \<Rightarrow> string + header_entry list" where
  "extractHeaders h =
     (case h of
        None \<Rightarrow> Inr []
      | Some (HeaderString s) \<Rightarrow> if s = [] then Inr [] else Inl ''headers.map is not a function''
      | Some (HeaderList headers) \<Rightarrow>
          Inr (map (\<lambda>header.
            \<lparr>he_key = hdr_key header,
             he_value = hdr_value header,
             he_description = or_str (hdr_description header) '''',
             he_disabled = or_bool (hdr_disabled header) False\<rparr>) headers))"

text \<open>
  What \<open>extractQueryParams\<close> returns has no \<^verbatim>\<open>in\<close> yet; the caller spreads each
  entry and adds \<^verbatim>\<open>in: 'query'\<close>, which is done here in one step.
\<close>

definition extractQueryParams :: "pm_query list \<Rightarrow> parameter list" where
  "extractQueryParams queryParams =
     map (\<lambda>param.
       \<lparr>p_name = q_key param,
        p_in = ''query'',
        p_required = (q_disabled param \<noteq> Some True),
        p_type = ''string'',
        p_description = or_str (q_description param) '''',
        p_example = map_option JStr (q_value param),
        p_format = None,
        p_enum = None\<rparr>) queryParams"

text \<open>An object literal: a property whose value is \<^verbatim>\<open>undefined\<close> is left out.\<close>

definition obj_of :: "(string \<times> string option) list \<Rightarrow> json" where
  "obj_of kvs = JObj (List.map_filter (\<lambda>(k, v). map_option (\<lambda>s. (k, JStr s)) v) kvs)"

definition postman_extractRequestBody :: "pm_body option \<Rightarrow> body option" where
  "postman_extractRequestBody b =
     (case b of
        None \<Rightarrow> None
      | Some body \<Rightarrow>
          if body_mode body = Some ''raw'' then
            Some \<lparr>b_required = True,
                  b_mediaType = or_str (body_language body) ''application/json'',
                  b_schema = \<lparr>sk_type = Some ''object'', sk_properties = [], sk_required = None,
                              sk_example = map_option JStr (body_raw body)\<rparr>\<rparr>
          else if body_mode body = Some ''urlencoded'' then
            Some \<lparr>b_required = True,
                  b_mediaType = ''application/x-www-form-urlencoded'',
                  b_schema = \<lparr>sk_type = Some ''object'', sk_properties = [], sk_required = None,
                              sk_example =
                                map_option (\<lambda>items. JArr (map (\<lambda>item.
                                    obj_of [(''key'', fld_key item), (''value'', fld_value item)])
                                  items))
                                  (body_urlencoded body)\<rparr>\<rparr>
          else if body_mode body = Some ''formdata'' then
            Some \<lparr>b_required = True,
                  b_mediaType = ''multipart/form-data'',
                  b_schema = \<lparr>sk_type = Some ''object'', sk_properties = [], sk_required = None,
                              sk_example =
                                map_option (\<lambda>items. JArr (map (\<lambda>item.
                                    obj_of [(''key'', fld_key item), (''value'', fld_value item),
                                            (''type'', fld_type item)])
                                  items))
                                  (body_formdata body)\<rparr>\<rparr>
          else None)"

definition extractRequestAuth :: "pm_auth option \<Rightarrow> json option" where
  "extractRequestAuth a =
     (case a of
        None \<Rightarrow> None
      | Some auth \<Rightarrow>
          if auth_type auth = Some ''bearer'' then
            Some (JObj [(''type'', JStr ''bearer''), (''name'', JStr ''Authorization'')])
          else if auth_type auth = Some ''apikey'' then
            Some (JObj [(''type'', JStr ''apiKey''), (''name'', JStr (apikey_name auth)),
                        (''in'', JStr ''header'')])
          else if auth_type auth = Some ''basic'' then
            Some (JObj [(''type'', JStr ''basic''), (''name'', JStr ''Authorization'')])
          else None)"

text \<open>Decimal rendering of a number inside a template literal.\<close>

function show_nat :: "nat \<Rightarrow> string" where
  "show_nat n = (if n < 10 then [digits ! n] else show_nat (n div 10) @ [digits ! (n mod 10)])"
  by pat_completeness auto
termination
  by (relation "measure id") auto

declare show_nat.simps [simp del]

text \<open>
  The \<^verbatim>\<open>extracted\<close> object of \<open>extractPostmanResponses\<close>, as the list of its properties
  in the order in which the platform enumerates them: the keys that are array indices
  (the decimal forms of the numbers below \<open>2^32 - 1\<close>) in ascending order, then the other
  keys in the order of their first assignment. Every key here is the decimal form of a
  status code, so the properties are kept under the number.
\<close>

fun js_set :: "nat \<Rightarrow> 'v \<Rightarrow> (nat \<times> 'v) list \<Rightarrow> (nat \<times> 'v) list" where
  "js_set k v [] = [(k, v)]"
| "js_set k v ((k', v') # rest) =
     (if k = k' then (k, v) # rest
      else if k < 4294967295 \<and> (4294967295 \<le> k' \<or> k < k') then (k, v) # (k', v') # rest
      else (k', v') # js_set k v rest)"

text \<open>
  \<^verbatim>\<open>response.header?.find(h => h.key === 'Content-Type')?.value\<close>: on a string,
  \<^verbatim>\<open>find\<close> is not a function and the call throws a \<^verbatim>\<open>TypeError\<close>.
\<close>

definition response_content_type :: "pm_headers option \<Rightarrow> string + string option" where
  "response_content_type h =
     (case h of
        None \<Rightarrow> Inr None
      | Some (HeaderString s) \<Rightarrow> Inl ''response.header?.find is not a function''
      | Some (HeaderList headers) \<Rightarrow>
          Inr (Option.bind (List.find (\<lambda>h. hdr_key h = Some ''Content-Type'') headers)
                 hdr_value))"

text \<open>
  \<^verbatim>\<open>responses.forEach((response, index) => { extracted[code] = ... })\<close>, with the index
  carried along; a missing or zero code is stored under \<^verbatim>\<open>'200'\<close>.
\<close>

fun postman_responses_from ::
  "nat \<Rightarrow> pm_response list \<Rightarrow> (nat \<times> response) list \<Rightarrow> string + (nat \<times> response) list" where
  "postman_responses_from index [] extracted = Inr extracted"
| "postman_responses_from index (resp # rest) extracted =
     (let code = (case resp_code resp of None \<Rightarrow> 200
                  | Some c \<Rightarrow> if c = 0 then 200 else c)
      in case response_content_type (resp_header resp) of
           Inl msg \<Rightarrow> Inl msg
         | Inr contentType \<Rightarrow>
             postman_responses_from (index + 1) rest
               (js_set code
                  \<lparr>r_description = or_str (resp_name resp) (''Response '' @ show_nat (index + 1)),
                   r_mediaType = or_str contentType ''application/json'',
                   r_schema = Some \<lparr>sk_type = Some ''object'', sk_properties = [],
                                    sk_required = None,
                                    sk_example = map_option JStr (resp_body resp)\<rparr>\<rparr>
                  extracted))"

definition extractPostmanResponses :: "pm_response list \<Rightarrow> string + (string \<times> response) list" where
  "extractPostmanResponses rs =
     (case postman_responses_from 0 rs [] of
        Inl msg \<Rightarrow> Inl msg
      | Inr extracted \<Rightarrow> Inr (map (\<lambda>(code, r). (show_nat code, r)) extracted))"

definition postman_generateOperationId :: "string \<Rightarrow> string \<Rightarrow> string option \<Rightarrow> string" where
  "postman_generateOperationId method path name =
     (let cleanPath = replace_non_alnum path;
          cleanName = (case name of None \<Rightarrow> ''''
                       | Some n \<Rightarrow> if n = [] then '''' else replace_non_alnum n)
      in if cleanName \<noteq> [] then toLowerCase method @ ''_'' @ cleanName
         else toLowerCase method @ ''_'' @ cleanPath)"

text \<open>The header parameters of an endpoint: the filter and the map of lines 180 to 187.\<close>

definition header_parameters :: "header_entry list \<Rightarrow> parameter list" where
  "header_parameters headers =
     map (\<lambda>header.
       \<lparr>p_name = he_key header,
        p_in = ''header'',
        p_required = False,
        p_type = ''string'',
        p_description = he_description header,
        p_example = map_option JStr (he_value header),
        p_format = None,
        p_enum = None\<rparr>)
      (filter (\<lambda>h. case he_key h of
                      None \<Rightarrow> False
                    | Some k \<Rightarrow> k \<noteq> [] \<and> \<not> str_includes (toLowerCase k) ''authorization'')
         headers)"

text \<open>
  The first half of \<open>extractEndpointFromRequest\<close>: \<^verbatim>\<open>fullUrl\<close> and \<^verbatim>\<open>path\<close>, or
  \<open>None\<close> where the function returns \<^verbatim>\<open>null\<close>. An empty string is falsy. On a
  \<^verbatim>\<open>url.path\<close> that is a string, \<^verbatim>\<open>url.path?.join\<close> is not a function and the call
  throws a \<^verbatim>\<open>TypeError\<close>; a segment that is an object is joined as
  \<^verbatim>\<open>[object Object]\<close>.
\<close>

definition segment_text :: "pm_segment \<Rightarrow> string" where
  "segment_text seg = (case seg of SegmentString s \<Rightarrow> s | SegmentObject \<Rightarrow> ''[object Object]'')"

definition request_url_path ::
  "url_constructor \<Rightarrow> pm_url option \<Rightarrow> string + (string \<times> string) option" where
  "request_url_path URL u =
     (case u of
        None \<Rightarrow> Inr None
      | Some (UrlString s) \<Rightarrow>
          if s = [] then Inr None
          else Inr (Some (s, case URL s of Some urlObj \<Rightarrow> url_pathname urlObj | None \<Rightarrow> s))
      | Some (UrlObject raw pth query) \<Rightarrow>
          (case raw of
             None \<Rightarrow> Inr None
           | Some r \<Rightarrow>
               if r = [] then Inr None
               else (case pth of
                       None \<Rightarrow> Inr (Some (r, []))
                     | Some (PathString s) \<Rightarrow> Inl ''url.path?.join is not a function''
                     | Some (PathSegments segments) \<Rightarrow>
                         Inr (Some (r, join ''/'' (map segment_text segments))))))"

definition request_query :: "pm_url option \<Rightarrow> pm_query list" where
  "request_query u =
     (case u of Some (UrlObject raw pth query) \<Rightarrow> or_list query | _ \<Rightarrow> [])"

text \<open>
  \<open>extractEndpointFromRequest\<close> returns the endpoint, \<open>Inr None\<close> where it returns
  \<^verbatim>\<open>null\<close>, or the message of the error it throws. A request that is a string has no
  \<^verbatim>\<open>url\<close>. The path is computed first, then the headers; the responses are computed
  when the endpoint object is built.
\<close>

definition extractEndpointFromRequest ::
  "url_constructor \<Rightarrow> pm_item \<Rightarrow> string \<Rightarrow> string + endpoint option" where
  "extractEndpointFromRequest URL it parentPath =
     (case it of
        NullItem \<Rightarrow> Inl (''Cannot read properties of null (reading '' @ [CHR 0x27] @ ''request'' @ [CHR 0x27] @ '')'')
      | Item name descr req children resps \<Rightarrow>
          (case req of
             None \<Rightarrow> Inr None
           | Some (RequestString s) \<Rightarrow> Inr None
           | Some (RequestObject request) \<Rightarrow>
               (case request_url_path URL (req_url request) of
                  Inl msg \<Rightarrow> Inl msg
                | Inr None \<Rightarrow> Inr None
                | Inr (Some (fullUrl, path)) \<Rightarrow>
                    (case extractHeaders (req_header request) of
                       Inl msg \<Rightarrow> Inl msg
                     | Inr headers \<Rightarrow>
                         (case extractPostmanResponses (or_list resps) of
                            Inl msg \<Rightarrow> Inl msg
                          | Inr responses \<Rightarrow>
                              (let method = toUpperCase (or_str (req_method request) ''GET'');
                                   queryParams = extractQueryParams (request_query (req_url request));
                                   body = postman_extractRequestBody (req_body request);
                                   auth = extractRequestAuth (req_auth request)
                               in Inr (Some
                                 \<lparr>ep_method = method,
                                  ep_path = (if startsWith path ''/'' then path else ''/'' @ path),
                                  ep_fullUrl = fullUrl,
                                  ep_summary = or_str name [],
                                  ep_description = or_str descr [],
                                  ep_operationId = postman_generateOperationId method path name,
                                  ep_parameters = queryParams @ header_parameters headers,
                                  ep_requestBody = body,
                                  ep_responses = responses,
                                  ep_security = (case auth of Some a \<Rightarrow> [a] | None \<Rightarrow> []),
                                  ep_tags = (if parentPath \<noteq> [] then [parentPath] else [])\<rparr>)))))))"

text \<open>\<^verbatim>\<open>if (item.request)\<close>: a request that is an empty string is falsy.\<close>

definition has_request :: "pm_request_value option \<Rightarrow> bool" where
  "has_request req =
     (case req of
        None \<Rightarrow> False
      | Some (RequestString s) \<Rightarrow> s \<noteq> []
      | Some (RequestObject request) \<Rightarrow> True)"

text \<open>
  \<open>processItems\<close> pushes onto the \<^verbatim>\<open>endpoints\<close> array of the enclosing function; the
  array is passed in and returned, or the message of the error thrown on the way. An item
  with a \<^verbatim>\<open>request\<close> is a request even when it also has an \<^verbatim>\<open>item\<close> array.
\<close>

fun processItems ::
    "url_constructor \<Rightarrow> pm_item list \<Rightarrow> string \<Rightarrow> endpoint list \<Rightarrow> string + endpoint list"
  and processItem ::
    "url_constructor \<Rightarrow> pm_item \<Rightarrow> string \<Rightarrow> endpoint list \<Rightarrow> string + endpoint list" where
  "processItems URL [] parentPath eps = Inr eps"
| "processItems URL (it # items) parentPath eps =
     (case processItem URL it parentPath eps of
        Inl msg \<Rightarrow> Inl msg
      | Inr eps' \<Rightarrow> processItems URL items parentPath eps')"
| "processItem URL NullItem parentPath eps = Inr eps"
| "processItem URL (Item name descr req children resps) parentPath eps =
     (if has_request req then
        (case extractEndpointFromRequest URL (Item name descr req children resps) parentPath of
           Inl msg \<Rightarrow> Inl msg
         | Inr (Some endpoint) \<Rightarrow> Inr (eps @ [endpoint])
         | Inr None \<Rightarrow> Inr eps)
      else
        (case children of
           Some cs \<Rightarrow>
             processItems URL cs
               (if parentPath \<noteq> [] then parentPath @ ''/'' @ or_str name ''unnamed''
                else or_str name ''unnamed'')
               eps
         | None \<Rightarrow> Inr eps))"

definition postman_extractEndpoints ::
  "url_constructor \<Rightarrow> pm_collection \<Rightarrow> string + endpoint list" where
  "postman_extractEndpoints URL collection =
     (case col_item collection of
        None \<Rightarrow> Inr []
      | Some items \<Rightarrow> processItems URL items [] [])"

text \<open>
  \<open>parsePostman\<close> receives the content and what \<^verbatim>\<open>JSON.parse(content)\<close> produced: the
  collection object, \<open>Inr None\<close> for a value that is falsy or not an object, or the
  message of the error thrown. Every error thrown inside is caught and thrown again with
  the prefix.
\<close>

definition parsePostman ::
  "url_constructor \<Rightarrow> string \<Rightarrow> string + pm_collection option \<Rightarrow> string + api_data" where
  "parsePostman URL content parsed =
     (if content = [] \<or> trim content = [] then
        Inl (''Failed to parse Postman Collection: '' @ ''Empty or invalid Postman collection content'')
      else
        (case parsed of
           Inl msg \<Rightarrow> Inl (''Failed to parse Postman Collection: '' @ msg)
         | Inr None \<Rightarrow>
             Inl (''Failed to parse Postman Collection: '' @ ''Invalid Postman collection format'')
         | Inr (Some collection) \<Rightarrow>
             (case postman_extractEndpoints URL collection of
                Inl msg \<Rightarrow> Inl (''Failed to parse Postman Collection: '' @ msg)
              | Inr eps \<Rightarrow>
                  Inr \<lparr>baseUrl = postman_extractBaseUrl collection,
                       authMethod = postman_extractAuthMethod collection,
                       endpoints = eps,
                       title = or_str (Option.bind (col_info collection) pinfo_name) ''Postman Collection'',
                       version = or_str (Option.bind (col_info collection) pinfo_schema) ''1.0.0'',
                       description = or_str (Option.bind (col_info collection) pinfo_description) []\<rparr>)))"
section \<open>The heuristic HTML normalizer (htmlParser.js)\<close>

text \<open>
  \<^verbatim>\<open>cheerio.load(content)\<close> accepts every string and returns the query function
  \<^verbatim>\<open>$\<close>. The normalizer sees the document only through the elements \<^verbatim>\<open>$(selector)\<close>
  matches, in document order, and through each element's text, attributes and parent;
  that is what the model takes as input.
\<close>

datatype html_element =
  Element (el_text: string) (el_attribs: "(string \<times> string) list")
    (el_parent: "html_element option")

type_synonym cheerio = "string \<Rightarrow> html_element list"

text \<open>\<^verbatim>\<open>.text()\<close> of a selection: the texts of its elements, concatenated.\<close>

definition selection_text :: "html_element list \<Rightarrow> string" where
  "selection_text els = concat (map el_text els)"

subsection \<open>Regular expressions\<close>

text \<open>
  A pattern is given by what it matches at the start of a string; \<open>first_match\<close> tries
  every start position from the left, as \<^verbatim>\<open>String.prototype.match\<close> does. None of
  the patterns below matches the empty string.
\<close>

fun first_match :: "(string \<Rightarrow> 'a option) \<Rightarrow> string \<Rightarrow> 'a option" where
  "first_match f [] = f []"
| "first_match f (c # cs) = (case f (c # cs) of Some r \<Rightarrow> Some r | None \<Rightarrow> first_match f cs)"

text \<open>\<^verbatim>\<open>/(https?:\/\/[^\s]+)/i\<close> at the start of \<open>s\<close>: the captured URL text.\<close>

definition url_at :: "string \<Rightarrow> string option" where
  "url_at s =
     (let l = toLowerCase s;
          n = (if prefix ''https://'' l then Some 8
               else if prefix ''http://'' l then Some 7 else None)
      in case n of
           None \<Rightarrow> None
         | Some k \<Rightarrow>
             (let run = takeWhile (\<lambda>c. \<not> is_blank c) (drop k s)
              in if run = [] then None else Some (take k s @ run)))"

definition match_url :: "string \<Rightarrow> string option" where
  "match_url text = first_match url_at text"

definition method_names :: "string list" where
  "method_names = [''GET'', ''POST'', ''PUT'', ''DELETE'', ''PATCH'', ''HEAD'', ''OPTIONS'']"

text \<open>
  \<^verbatim>\<open>(GET|POST|PUT|DELETE|PATCH|HEAD|OPTIONS)\<close> without regard to case at the start of
  \<open>s\<close>: the matched text and the rest of the string.
\<close>

definition method_at :: "string \<Rightarrow> (string \<times> string) option" where
  "method_at s =
     (case List.find (\<lambda>m. toUpperCase (take (length m) s) = m) method_names of
        None \<Rightarrow> None
      | Some m \<Rightarrow> Some (take (length m) s, drop (length m) s))"

text \<open>\<^verbatim>\<open>/(GET|...|OPTIONS)\s+([^\s]+)/i\<close>: the two captures.\<close>

definition method_path_at :: "string \<Rightarrow> (string \<times> string) option" where
  "method_path_at s =
     (case method_at s of
        None \<Rightarrow> None
      | Some (m, rest) \<Rightarrow>
          (let run = takeWhile (\<lambda>c. \<not> is_blank c) (dropWhile is_blank rest)
           in if takeWhile is_blank rest \<noteq> [] \<and> run \<noteq> [] then Some (m, run) else None))"

text \<open>\<^verbatim>\<open>/([^\s]+)\s+(GET|...|OPTIONS)/i\<close>: the two captures, in the order of the groups.\<close>

definition path_method_at :: "string \<Rightarrow> (string \<times> string) option" where
  "path_method_at s =
     (let run = takeWhile (\<lambda>c. \<not> is_blank c) s;
          rest = dropWhile (\<lambda>c. \<not> is_blank c) s
      in if run \<noteq> [] \<and> takeWhile is_blank rest \<noteq> [] then
           (case method_at (dropWhile is_blank rest) of
              None \<Rightarrow> None
            | Some (m, r) \<Rightarrow> Some (run, m))
         else None)"

text \<open>\<^verbatim>\<open>/(GET|...|OPTIONS)\s*:\s*([^\s]+)/i\<close>: the two captures.\<close>

definition method_colon_path_at :: "string \<Rightarrow> (string \<times> string) option" where
  "method_colon_path_at s =
     (case method_at s of
        None \<Rightarrow> None
      | Some (m, rest) \<Rightarrow>
          (case dropWhile is_blank rest of
             [] \<Rightarrow> None
           | c # after \<Rightarrow>
               (let run = takeWhile (\<lambda>c. \<not> is_blank c) (dropWhile is_blank after)
                in if c = CHR '':'' \<and> run \<noteq> [] then Some (m, run) else None)))"

definition methodPatterns :: "(string \<Rightarrow> (string \<times> string) option) list" where
  "methodPatterns = [method_path_at, path_method_at, method_colon_path_at]"

text \<open>The character class \<^verbatim>\<open>\w\<close>.\<close>

definition is_word :: "char \<Rightarrow> bool" where
  "is_word c = (is_alnum c \<or> c = CHR ''_'')"

text \<open>
  A pattern with the \<^verbatim>\<open>g\<close> flag, run by \<^verbatim>\<open>exec\<close> until it returns null: every match
  from the left, each search starting where the previous match ended. A pattern gives,
  for a match at the start of a string, the first capture and how many characters the
  match takes after its first one.
\<close>

function all_matches :: "(string \<Rightarrow> (string \<times> nat) option) \<Rightarrow> string \<Rightarrow> string list" where
  "all_matches f [] = []"
| "all_matches f (c # cs) =
     (case f (c # cs) of
        Some (name, k) \<Rightarrow> name # all_matches f (drop k cs)
      | None \<Rightarrow> all_matches f cs)"
  by pat_completeness auto
termination
  by (relation "measure (\<lambda>(f, s). length s)") auto

text \<open>\<^verbatim>\<open>/{(\w+)}/g\<close>\<close>

definition brace_param_at :: "string \<Rightarrow> (string \<times> nat) option" where
  "brace_param_at s =
     (case s of
        [] \<Rightarrow> None
      | c # rest \<Rightarrow>
          (let run = takeWhile is_word rest
           in if c = CHR ''{'' \<and> run \<noteq> [] \<and> prefix ''}'' (dropWhile is_word rest)
              then Some (run, length run + 1) else None))"

text \<open>\<^verbatim>\<open>/[?&](\w+)=/g\<close>\<close>

definition query_param_at :: "string \<Rightarrow> (string \<times> nat) option" where
  "query_param_at s =
     (case s of
        [] \<Rightarrow> None
      | c # rest \<Rightarrow>
          (let run = takeWhile is_word rest
           in if (c = CHR ''?'' \<or> c = CHR ''&'') \<and> run \<noteq> []
                 \<and> prefix ''='' (dropWhile is_word rest)
              then Some (run, length run + 1) else None))"

text \<open>\<^verbatim>\<open>/(\w+):\s*([^\s,]+)/g\<close>\<close>

definition key_value_at :: "string \<Rightarrow> (string \<times> nat) option" where
  "key_value_at s =
     (let run = takeWhile is_word s;
          rest = dropWhile is_word s
      in case rest of
           [] \<Rightarrow> None
         | c # after \<Rightarrow>
             (let blanks = takeWhile is_blank after;
                  val = takeWhile (\<lambda>c. \<not> is_blank c \<and> c \<noteq> CHR '','') (dropWhile is_blank after)
              in if run \<noteq> [] \<and> c = CHR '':'' \<and> val \<noteq> []
                 then Some (run, length run + length blanks + length val) else None))"

subsection \<open>The normalizer\<close>

definition base_url_patterns :: "string list" where
  "base_url_patterns =
     [''base url'', ''base url:'', ''api base'', ''endpoint base'', ''server url'', ''host url'']"

text \<open>The first loop of \<open>extractBaseUrl\<close>: the URL it returns, if it returns.\<close>

fun base_url_from_patterns :: "cheerio \<Rightarrow> string list \<Rightarrow> string option" where
  "base_url_from_patterns dollar [] = None"
| "base_url_from_patterns dollar (pattern # patterns) =
     (let element = take 1 (dollar (''*:contains(\"'' @ pattern @ ''\")''))
      in case (if element \<noteq> [] then match_url (selection_text element) else None) of
           Some m \<Rightarrow> Some m
         | None \<Rightarrow> base_url_from_patterns dollar patterns)"

text \<open>
  The second loop: at the first code block with a URL-shaped token, \<^verbatim>\<open>new URL\<close> is
  called outside any \<^verbatim>\<open>try\<close>; when it throws, the error leaves \<open>extractBaseUrl\<close>
  (\<open>Inl\<close>, with the error's message).
\<close>

fun base_url_from_code :: "url_constructor \<Rightarrow> html_element list \<Rightarrow> string + string" where
  "base_url_from_code URL [] = Inr ''''"
| "base_url_from_code URL (block # blocks) =
     (case match_url (selection_text [block]) of
        Some m \<Rightarrow>
          (case URL m of
             None \<Rightarrow> Inl ''Invalid URL''
           | Some url \<Rightarrow> Inr (url_protocol url @ ''//'' @ url_host url))
      | None \<Rightarrow> base_url_from_code URL blocks)"

definition html_extractBaseUrl :: "url_constructor \<Rightarrow> cheerio \<Rightarrow> string + string" where
  "html_extractBaseUrl URL dollar =
     (case base_url_from_patterns dollar base_url_patterns of
        Some m \<Rightarrow> Inr m
      | None \<Rightarrow> base_url_from_code URL (dollar ''code, pre''))"

definition html_extractAuthMethod :: "cheerio \<Rightarrow> auth_method" where
  "html_extractAuthMethod dollar =
     (let authText = toLowerCase (selection_text (dollar ''*''))
      in if str_includes authText ''bearer token'' \<or> str_includes authText ''bearer'' then
           \<lparr>am_type = ''bearer'', am_name = Some ''Authorization'', am_in = None,
            am_description = Some ''Bearer token authentication''\<rparr>
         else if str_includes authText ''api key'' \<or> str_includes authText ''apikey'' then
           \<lparr>am_type = ''apiKey'', am_name = Some ''X-API-Key'', am_in = Some ''header'',
            am_description = Some ''API Key authentication''\<rparr>
         else if str_includes authText ''basic auth''
                 \<or> str_includes authText ''basic authentication'' then
           \<lparr>am_type = ''basic'', am_name = Some ''Authorization'', am_in = None,
            am_description = Some ''Basic authentication''\<rparr>
         else if str_includes authText ''oauth'' \<or> str_includes authText ''oauth2'' then
           \<lparr>am_type = ''oauth2'', am_name = Some ''Authorization'', am_in = None,
            am_description = Some ''OAuth 2.0 authentication''\<rparr>
         else auth_none)"

text \<open>\<^verbatim>\<open>s.split('\n')\<close>\<close>

fun split_lines :: "string \<Rightarrow> string list" where
  "split_lines [] = [[]]"
| "split_lines (c # cs) =
     (if c = CHR 0x0A then [] # split_lines cs
      else (case split_lines cs of l # ls \<Rightarrow> (c # l) # ls | [] \<Rightarrow> [[c]]))"

text \<open>
  \<open>extractDescriptionFromContext\<close>. Its first loop reads \<^verbatim>\<open>siblings[i].text?.()\<close>;
  an indexed entry of a selection is a bare node without a \<^verbatim>\<open>text\<close> method, so the
  text is \<^verbatim>\<open>''\<close> for every sibling and the loop never returns. The second part looks
  at the lines of the parent's text.
\<close>

definition extractDescriptionFromContext :: "html_element \<Rightarrow> string" where
  "extractDescriptionFromContext element =
     (case el_parent element of
        None \<Rightarrow> ''''
      | Some parent \<Rightarrow>
          (let lines = filter (\<lambda>line. length line > 0) (map trim (split_lines (el_text parent)))
           in case List.find (\<lambda>line. length line > 10 \<and> length line < 200
                                     \<and> method_at line = None) lines of
                Some line \<Rightarrow> line
              | None \<Rightarrow> ''''))"

definition inferMethodFromContext :: "string \<Rightarrow> string" where
  "inferMethodFromContext text =
     (let context = toLowerCase text
      in if str_includes context ''get'' \<or> str_includes context ''retrieve''
            \<or> str_includes context ''fetch'' then ''GET''
         else if str_includes context ''post'' \<or> str_includes context ''create''
            \<or> str_includes context ''add'' then ''POST''
         else if str_includes context ''put'' \<or> str_includes context ''update''
            \<or> str_includes context ''modify'' then ''PUT''
         else if str_includes context ''delete'' \<or> str_includes context ''remove'' then ''DELETE''
         else if str_includes context ''patch'' then ''PATCH''
         else ''GET'')"

text \<open>The inner loop of \<open>extractParametersFromText\<close> for the matches of one pattern.\<close>

fun push_parameters :: "string \<Rightarrow> string list \<Rightarrow> parameter list \<Rightarrow> parameter list" where
  "push_parameters loc [] parameters = parameters"
| "push_parameters loc (paramName # names) parameters =
     push_parameters loc names
       (if List.find (\<lambda>p. p_name p = Some paramName) parameters = None then
          parameters @
            [\<lparr>p_name = Some paramName, p_in = loc, p_required = False, p_type = ''string'',
              p_description = '''', p_example = Some (JStr ''''), p_format = None,
              p_enum = None\<rparr>]
        else parameters)"

text \<open>Only the source of the first pattern contains \<^verbatim>\<open>{\<close>, so only its matches are path parameters.\<close>

definition extractParametersFromText :: "string \<Rightarrow> parameter list" where
  "extractParametersFromText text =
     push_parameters ''query'' (all_matches key_value_at text)
       (push_parameters ''query'' (all_matches query_param_at text)
          (push_parameters ''path'' (all_matches brace_param_at text) []))"

definition html_generateOperationId :: "string \<Rightarrow> string \<Rightarrow> string" where
  "html_generateOperationId method path = toLowerCase method @ ''_'' @ replace_non_alnum path"

text \<open>\<^verbatim>\<open>path.replace(/[^\w\/\-{}]/g, '')\<close>, then the leading slash.\<close>

definition clean_path :: "string \<Rightarrow> string" where
  "clean_path p =
     (let path = filter (\<lambda>c. is_word c \<or> c \<in> set ''/-{}'') p
      in if \<not> startsWith path ''/'' then ''/'' @ path else path)"

text \<open>
  The endpoint built for a match of one of the method patterns. The method is the first
  capture and the path the second, for each of the three patterns.
\<close>

definition endpoint_from_match :: "string \<Rightarrow> html_element \<Rightarrow> string \<times> string \<Rightarrow> endpoint" where
  "endpoint_from_match text element m =
     (let method = toUpperCase (fst m);
          path = clean_path (snd m);
          description = extractDescriptionFromContext element
      in \<lparr>ep_method = method,
          ep_path = path,
          ep_fullUrl = path,
          ep_summary = or_str (Some description) (method @ '' '' @ path),
          ep_description = or_str (Some description) '''',
          ep_operationId = html_generateOperationId method path,
          ep_parameters = extractParametersFromText text,
          ep_requestBody = None,
          ep_responses = [],
          ep_security = [],
          ep_tags = []\<rparr>)"

text \<open>The endpoint built for a bare URL; \<open>None\<close> when \<^verbatim>\<open>new URL\<close> throws inside the \<^verbatim>\<open>try\<close>.\<close>

definition endpoint_from_url :: "url_constructor \<Rightarrow> string \<Rightarrow> html_element \<Rightarrow> string \<Rightarrow> endpoint option" where
  "endpoint_from_url URL text element m =
     (case URL m of
        None \<Rightarrow> None
      | Some url \<Rightarrow>
          (let path = url_pathname url;
               method = inferMethodFromContext text
           in Some
             \<lparr>ep_method = method,
              ep_path = path,
              ep_fullUrl = m,
              ep_summary = method @ '' '' @ path,
              ep_description = or_str (Some (extractDescriptionFromContext element)) '''',
              ep_operationId = html_generateOperationId method path,
              ep_parameters = extractParametersFromText text,
              ep_requestBody = None,
              ep_responses = [],
              ep_security = [],
              ep_tags = []\<rparr>))"

text \<open>The loop over \<open>methodPatterns\<close>: the first pattern that matches decides.\<close>

fun first_pattern_match ::
  "(string \<Rightarrow> (string \<times> string) option) list \<Rightarrow> string \<Rightarrow> (string \<times> string) option" where
  "first_pattern_match [] text = None"
| "first_pattern_match (pattern # patterns) text =
     (case first_match pattern text of
        Some m \<Rightarrow> Some m
      | None \<Rightarrow> first_pattern_match patterns text)"

definition parseEndpointFromText :: "url_constructor \<Rightarrow> string \<Rightarrow> html_element \<Rightarrow> endpoint option" where
  "parseEndpointFromText URL text element =
     (case first_pattern_match methodPatterns text of
        Some m \<Rightarrow> Some (endpoint_from_match text element m)
      | None \<Rightarrow>
          (case match_url text of
             Some urlMatch \<Rightarrow> endpoint_from_url URL text element urlMatch
           | None \<Rightarrow> None))"

definition endpointSelectors :: "string list" where
  "endpointSelectors =
     [''h1, h2, h3, h4, h5, h6'',
      ''code'',
      ''pre'',
      ''.endpoint, .api-endpoint, .route'',
      ''[class*=\"endpoint\"], [class*=\"api\"], [class*=\"route\"]'']"

text \<open>The first pair of loops of \<open>extractEndpoints\<close>: the candidates, in discovery order.\<close>

definition endpoint_candidates :: "url_constructor \<Rightarrow> cheerio \<Rightarrow> endpoint list" where
  "endpoint_candidates URL dollar =
     concat (map (\<lambda>selector.
        List.map_filter (\<lambda>element. parseEndpointFromText URL (trim (el_text element)) element)
          (dollar selector))
      endpointSelectors)"

text \<open>The second loop, with the set \<^verbatim>\<open>seen\<close> and the array \<^verbatim>\<open>uniqueEndpoints\<close>.\<close>

fun remove_duplicates :: "endpoint list \<Rightarrow> string set \<Rightarrow> endpoint list \<Rightarrow> endpoint list" where
  "remove_duplicates [] seen uniqueEndpoints = uniqueEndpoints"
| "remove_duplicates (endpoint # rest) seen uniqueEndpoints =
     (let key = ep_method endpoint @ '':'' @ ep_path endpoint
      in if key \<notin> seen then remove_duplicates rest (insert key seen) (uniqueEndpoints @ [endpoint])
         else remove_duplicates rest seen uniqueEndpoints)"

definition html_extractEndpoints :: "url_constructor \<Rightarrow> cheerio \<Rightarrow> endpoint list" where
  "html_extractEndpoints URL dollar = remove_duplicates (endpoint_candidates URL dollar) {} []"

definition extractTitle :: "cheerio \<Rightarrow> string" where
  "extractTitle dollar =
     trim (or_str (Some (selection_text (dollar ''title'')))
             (selection_text (take 1 (dollar ''h1''))))"

text \<open>\<^verbatim>\<open>.attr('content')\<close> reads the attribute of the first element of the selection.\<close>

definition extractDescription :: "cheerio \<Rightarrow> string" where
  "extractDescription dollar =
     (let metaDesc = (case dollar ''meta[name=\"description\"]'' of
                        [] \<Rightarrow> None
                      | e # _ \<Rightarrow> map_of (el_attribs e) ''content'');
          firstP = selection_text (take 1 (dollar ''p''))
      in case (case metaDesc of Some d \<Rightarrow> if d \<noteq> [] then Some d else None | None \<Rightarrow> None) of
           Some d \<Rightarrow> d
         | None \<Rightarrow> if firstP \<noteq> [] \<and> length firstP > 20 then trim firstP else '''')"

text \<open>
  \<open>parseHtmlDocs\<close>: an error thrown while the parts are computed is caught and thrown
  again with a prefix; only \<open>extractBaseUrl\<close> can throw.
\<close>

definition parseHtmlDocs :: "url_constructor \<Rightarrow> cheerio \<Rightarrow> string + api_data" where
  "parseHtmlDocs URL dollar =
     (case html_extractBaseUrl URL dollar of
        Inl message \<Rightarrow> Inl (''Failed to parse HTML documentation: '' @ message)
      | Inr base \<Rightarrow>
          Inr \<lparr>baseUrl = base,
               authMethod = html_extractAuthMethod dollar,
               endpoints = html_extractEndpoints URL dollar,
               title = or_str (Some (extractTitle dollar)) ''HTML API Documentation'',
               version = ''1.0.0'',
               description = or_str (Some (extractDescription dollar)) ''''\<rparr>)"

section \<open>The target emitters: one method per endpoint\<close>

text \<open>
  The four emitters (nodeGenerator.js, goGenerator.js and the Java and PHP generators)
  build the text of a client method from an endpoint of the canonical model.
\<close>

definition nl :: string where
  "nl = [CHR 0x0A]"

definition tab :: string where
  "tab = [CHR 0x09]"

definition quote :: string where
  "quote = [CHR 0x27]"

definition backslash :: string where
  "backslash = [CHR 0x5C]"

text \<open>A name inside a template literal: \<^verbatim>\<open>undefined\<close> is rendered as that word.\<close>

definition tpl :: "string option \<Rightarrow> string" where
  "tpl v = (case v of None \<Rightarrow> ''undefined'' | Some s \<Rightarrow> s)"


text \<open>The first three lines of every \<open>generateEndpointMethod\<close>.\<close>

definition path_parameters :: "endpoint \<Rightarrow> parameter list" where
  "path_parameters endpoint = filter (\<lambda>p. p_in p = ''path'') (ep_parameters endpoint)"

definition query_parameters :: "endpoint \<Rightarrow> parameter list" where
  "query_parameters endpoint = filter (\<lambda>p. p_in p = ''query'') (ep_parameters endpoint)"

definition has_body :: "endpoint \<Rightarrow> bool" where
  "has_body endpoint =
     (ep_requestBody endpoint \<noteq> None \<and> ep_method endpoint \<noteq> ''GET''
      \<and> ep_method endpoint \<noteq> ''DELETE'')"

text \<open>\<^verbatim>\<open>summary || description || `${method} ${path}`\<close>\<close>

definition headline :: "endpoint \<Rightarrow> string" where
  "headline endpoint =
     (if ep_summary endpoint \<noteq> [] then ep_summary endpoint
      else if ep_description endpoint \<noteq> [] then ep_description endpoint
      else ep_method endpoint @ '' '' @ ep_path endpoint)"

subsection \<open>Node.js\<close>








subsection \<open>Go\<close>

text \<open>The array \<^verbatim>\<open>parameters\<close> of \<open>generateMethodParameters\<close>, and the joined text it returns.\<close>

definition go_methodParameters :: "parameter list \<Rightarrow> parameter list \<Rightarrow> bool \<Rightarrow> string list" where
  "go_methodParameters params queryParams hasBody =
     (let parameters = foldl (\<lambda>parameters param. parameters @ [tpl (p_name param) @ '' string''])
                         [] params;
          parameters = foldl (\<lambda>parameters param. parameters @ [tpl (p_name param) @ '' string''])
                         parameters queryParams
      in if hasBody then parameters @ [''body interface{}''] else parameters)"

definition go_generateMethodParameters :: "parameter list \<Rightarrow> parameter list \<Rightarrow> bool \<Rightarrow> string" where
  "go_generateMethodParameters params queryParams hasBody =
     join '', '' (go_methodParameters params queryParams hasBody)"

text \<open>\<^verbatim>\<open>operationId.charAt(0).toUpperCase() + operationId.slice(1)\<close>\<close>

definition capitalize :: "string \<Rightarrow> string" where
  "capitalize s = toUpperCase (take 1 s) @ drop 1 s"

definition go_generateEndpointMethod :: "endpoint \<Rightarrow> string" where
  "go_generateEndpointMethod endpoint =
     (let params = path_parameters endpoint;
          queryParams = query_parameters endpoint;
          hasBody = has_body endpoint;
          methodSignature =
            ''// '' @ ep_operationId endpoint @ '' '' @ headline endpoint @ nl @
            ''// '' @ (if ep_description endpoint \<noteq> [] then ep_description endpoint else []) @ nl @
            ''func (c *ApiClient) '' @ capitalize (ep_operationId endpoint) @ ''()'';
          methodSignature =
            (if length params > 0 \<or> length queryParams > 0 \<or> hasBody
             then methodSignature @ ''('' @ go_generateMethodParameters params queryParams hasBody
                    @ '')''
             else methodSignature);
          methodSignature = methodSignature @ '' (*ApiResponse, error) {'';
          urlBuilding =
            foldl (\<lambda>urlBuilding param.
                     urlBuilding @ nl @ tab @ ''url = strings.ReplaceAll(url, \"{''
                       @ tpl (p_name param) @ ''}\", '' @ tpl (p_name param) @ '')'')
              (tab @ ''url := \"'' @ ep_path endpoint @ ''\"'') params;
          queryBuilding =
            (if length queryParams > 0
             then foldl (\<lambda>queryBuilding param.
                           queryBuilding
                           @ nl @ tab @ ''if '' @ tpl (p_name param) @ '' != \"\" {''
                           @ nl @ tab @ tab @ ''queryParams[\"'' @ tpl (p_name param) @ ''\"] = ''
                             @ tpl (p_name param)
                           @ nl @ tab @ ''}'')
                    (nl @ tab @ ''queryParams := make(map[string]string)'') queryParams
                  @ nl @ tab @ ''if len(queryParams) > 0 {''
                  @ nl @ tab @ tab @ ''url += \"?\" + buildQueryString(queryParams)''
                  @ nl @ tab @ ''}''
             else []);
          bodyBuilding =
            (if hasBody
             then nl @ tab @ ''var requestBody []byte''
                  @ nl @ tab @ ''var err error''
                  @ nl @ tab @ ''if body != nil {''
                  @ nl @ tab @ tab @ ''requestBody, err = json.Marshal(body)''
                  @ nl @ tab @ tab @ ''if err != nil {''
                  @ nl @ tab @ tab @ tab
                    @ ''return nil, fmt.Errorf(\"failed to marshal request body: %w\", err)''
                  @ nl @ tab @ tab @ ''}''
                  @ nl @ tab @ ''}''
             else [])
      in methodSignature @ nl @
         urlBuilding @ queryBuilding @ bodyBuilding @ nl @
         nl @
         tab @ ''return c.requestHandler.MakeRequest(c.httpClient, \"'' @ ep_method endpoint
           @ ''\", url, requestBody, c.authHandler.GetAuthHeaders())'' @ nl @
         ''}'')"

definition go_endpointMethods :: "api_data \<Rightarrow> string list" where
  "go_endpointMethods parsedData = map go_generateEndpointMethod (endpoints parsedData)"

definition go_clientMethods :: "api_data \<Rightarrow> string" where
  "go_clientMethods parsedData = join (nl @ nl) (go_endpointMethods parsedData)"

subsection \<open>Java\<close>



text \<open>
  \<^verbatim>\<open>s.replace(pattern, replacement)\<close> with a string pattern: the first occurrence is
  replaced, and in the replacement \<^verbatim>\<open>$$\<close>, \<^verbatim>\<open>$&\<close>, \<^verbatim>\<open>$`\<close> and \<^verbatim>\<open>$'\<close> stand for a
  dollar sign, the match, the text preceding it and the text following it.
\<close>

fun split_first :: "string \<Rightarrow> string \<Rightarrow> (string \<times> string) option" where
  "split_first pat [] = (if pat = [] then Some ([], []) else None)"
| "split_first pat (c # cs) =
     (if prefix pat (c # cs) then Some ([], drop (length pat) (c # cs))
      else map_option (\<lambda>(preceding, following). (c # preceding, following)) (split_first pat cs))"










subsection \<open>PHP\<close>

definition php_methodParameters :: "parameter list \<Rightarrow> parameter list \<Rightarrow> bool \<Rightarrow> string list" where
  "php_methodParameters params queryParams hasBody =
     (let parameters = foldl (\<lambda>parameters param.
                                parameters @ [''?string $'' @ tpl (p_name param) @ '' = null''])
                         [] params;
          parameters = foldl (\<lambda>parameters param.
                                parameters @ [''?string $'' @ tpl (p_name param) @ '' = null''])
                         parameters queryParams
      in if hasBody then parameters @ [''?array $body = null''] else parameters)"

definition php_generateMethodParameters :: "parameter list \<Rightarrow> parameter list \<Rightarrow> bool \<Rightarrow> string" where
  "php_generateMethodParameters params queryParams hasBody =
     join '', '' (php_methodParameters params queryParams hasBody)"

definition php_generateEndpointMethod :: "endpoint \<Rightarrow> string" where
  "php_generateEndpointMethod endpoint =
     (let params = path_parameters endpoint;
          queryParams = query_parameters endpoint;
          hasBody = has_body endpoint;
          methodSignature =
            ''    /**'' @ nl @
            ''     * '' @ headline endpoint @ nl @
            ''     * '' @ (if ep_description endpoint \<noteq> []
                           then nl @ ''     * '' @ ep_description endpoint else []) @ nl @
            ''     * @return ApiResponse API response'' @ nl @
            ''     * @throws '' @ backslash @ ''Exception if request fails'' @ nl @
            ''     */'' @ nl @
            ''    public function '' @ ep_operationId endpoint @ ''()'';
          methodSignature =
            (if length params > 0 \<or> length queryParams > 0 \<or> hasBody
             then methodSignature @ ''('' @ php_generateMethodParameters params queryParams hasBody
                    @ '')''
             else methodSignature);
          methodSignature = methodSignature @ '': ApiResponse'';
          urlBuilding =
            foldl (\<lambda>urlBuilding param.
                     urlBuilding @ nl @ ''        $url = str_replace('' @ quote @ ''{''
                       @ tpl (p_name param) @ ''}'' @ quote @ '', $'' @ tpl (p_name param)
                       @ '', $url);'')
              (''        $url = '' @ quote @ ep_path endpoint @ quote @ '';'') params;
          queryBuilding =
            (if length queryParams > 0
             then foldl (\<lambda>queryBuilding param.
                           queryBuilding
                           @ nl @ ''        if ($'' @ tpl (p_name param) @ '' !== null) {''
                           @ nl @ ''            $queryParams['' @ quote @ tpl (p_name param) @ quote
                             @ ''] = $'' @ tpl (p_name param) @ '';''
                           @ nl @ ''        }'')
                    (nl @ ''        $queryParams = [];'') queryParams
                  @ nl @ ''        if (!empty($queryParams)) {''
                  @ nl @ ''            $url .= '' @ quote @ ''?'' @ quote
                    @ '' . http_build_query($queryParams);''
                  @ nl @ ''        }''
             else []);
          bodyBuilding =
            (if hasBody
             then nl @ ''        $requestBody = null;''
                  @ nl @ ''        if ($body !== null) {''
                  @ nl @ ''            $requestBody = json_encode($body);''
                  @ nl @ ''        }''
             else [])
      in methodSignature @ nl @
         ''    {'' @ nl @
         urlBuilding @ queryBuilding @ bodyBuilding @ nl @
         nl @
         ''        return $this->requestHandler->makeRequest('' @ nl @
         ''            $this->httpClient,'' @ nl @
         ''            '' @ quote @ ep_method endpoint @ quote @ '','' @ nl @
         ''            $url,'' @ nl @
         ''            $requestBody,'' @ nl @
         ''            $this->authHandler->getAuthHeaders()'' @ nl @
         ''        );'' @ nl @
         ''    }'')"

definition php_endpointMethods :: "api_data \<Rightarrow> string list" where
  "php_endpointMethods parsedData = map php_generateEndpointMethod (endpoints parsedData)"

definition php_clientMethods :: "api_data \<Rightarrow> string" where
  "php_clientMethods parsedData = join (nl @ nl) (php_endpointMethods parsedData)"

section \<open>The emitted request handlers: retry with backoff\<close>

text \<open>
  Each emitter's \<open>generateRequestHandler\<close> returns a fixed program text. The retry loop of
  the \<^verbatim>\<open>makeRequest\<close> of the Node.js, Java and Go handlers is modelled here: what an
  attempt does is given by the server, a function from the number of the attempt (from 1)
  to its result. The PHP handler is left out: the text emitted for \<^verbatim>\<open>ErrorHandler.php\<close>
  declares the class \<^verbatim>\<open>ApiException\<close> inside the class \<^verbatim>\<open>ErrorHandler\<close>, which PHP
  does not accept, so the \<^verbatim>\<open>new ApiException\<close> with which its \<^verbatim>\<open>executeRequest\<close>
  reports a failed attempt raises an \<^verbatim>\<open>Error\<close> that the \<^verbatim>\<open>catch (\\Exception $e)\<close> of
  the loop does not catch.
\<close>

datatype attempt_result =
    Succeeds
  | FailsWithStatus int
  | FailsWithoutResponse

type_synonym server = "nat \<Rightarrow> attempt_result"

text \<open>
  How a call of \<^verbatim>\<open>makeRequest\<close> ends: with the response; with the failure of an attempt
  raised to the caller; with another exception raised by the handler itself; or with no
  attempt made and so nothing to raise (the variable for the last error is still unset).
\<close>

datatype ending =
    Returned
  | Surfaced nat attempt_result
  | Raised string
  | NothingToRaise

record run =
  attempts :: nat
  sleeps :: "int list"
  ending :: ending

text \<open>
  The test of the handlers: a failure with an HTTP status from 400 to 499 other than 429
  is not retried.
\<close>

definition client_error :: "attempt_result \<Rightarrow> bool" where
  "client_error r =
     (case r of FailsWithStatus s \<Rightarrow> 400 \<le> s \<and> s < 500 \<and> s \<noteq> 429 | _ \<Rightarrow> False)"

text \<open>What computing the delay and sleeping does: sleep so many milliseconds, or raise.\<close>

datatype backoff = Sleep int | SleepRaises string

text \<open>
  The loop \<^verbatim>\<open>for (attempt = 1; attempt <= maxRetries; attempt++)\<close>, the same in the
  three handlers but for the delay. \<open>attempt\<close> is the attempt about to be made.
\<close>

function retry_loop :: "(nat \<Rightarrow> backoff) \<Rightarrow> int \<Rightarrow> server \<Rightarrow> nat \<Rightarrow> int list \<Rightarrow> run" where
  "retry_loop delay maxRetries srv attempt slept =
     (if int attempt \<le> maxRetries then
        (case srv attempt of
           Succeeds \<Rightarrow> \<lparr>attempts = attempt, sleeps = slept, ending = Returned\<rparr>
         | failure \<Rightarrow>
             if client_error failure then
               \<lparr>attempts = attempt, sleeps = slept, ending = Surfaced attempt failure\<rparr>
             else if int attempt = maxRetries then
               \<lparr>attempts = attempt, sleeps = slept, ending = Surfaced attempt failure\<rparr>
             else
               (case delay attempt of
                  SleepRaises e \<Rightarrow> \<lparr>attempts = attempt, sleeps = slept, ending = Raised e\<rparr>
                | Sleep ms \<Rightarrow> retry_loop delay maxRetries srv (attempt + 1) (slept @ [ms])))
      else
        \<lparr>attempts = attempt - 1, sleeps = slept,
         ending = (if attempt = 1 then NothingToRaise else Surfaced (attempt - 1) (srv (attempt - 1)))\<rparr>)"
  by pat_completeness auto
termination
  by (relation "measure (\<lambda>(delay, maxRetries, srv, attempt, slept). nat (maxRetries + 1 - int attempt))")
     auto

declare retry_loop.simps [simp del]

text \<open>
  Node.js: \<^verbatim>\<open>Math.min(1000 * Math.pow(2, attempt - 1), 10000)\<close> on numbers that do not
  overflow; \<^verbatim>\<open>maxRetries = this.config.maxRetries || 3\<close>.
\<close>

definition node_delay :: "nat \<Rightarrow> backoff" where
  "node_delay attempt = Sleep (min (1000 * 2 ^ (attempt - 1)) 10000)"

definition node_makeRequest :: "int \<Rightarrow> server \<Rightarrow> run" where
  "node_makeRequest config_maxRetries srv =
     retry_loop node_delay (if config_maxRetries = 0 then 3 else config_maxRetries) srv 1 []"

text \<open>
  Java: \<^verbatim>\<open>Math.min(1000L * (long) Math.pow(2, attempt - 1), 10000L)\<close>. The cast of the
  power to \<^verbatim>\<open>long\<close> saturates at \<open>2\<^sup>6\<^sup>3 - 1\<close>, the product is computed in 64 bits
  and wraps, and \<^verbatim>\<open>Thread.sleep\<close> raises \<^verbatim>\<open>IllegalArgumentException\<close> for a negative
  argument.
\<close>

definition java_long_pow2 :: "nat \<Rightarrow> 64 word" where
  "java_long_pow2 n = (if n < 63 then 2 ^ n else 2 ^ 63 - 1)"

definition java_delay_ms :: "nat \<Rightarrow> int" where
  "java_delay_ms attempt = min (sint (1000 * java_long_pow2 (attempt - 1))) 10000"

definition java_delay :: "nat \<Rightarrow> backoff" where
  "java_delay attempt =
     (if java_delay_ms attempt < 0 then SleepRaises ''IllegalArgumentException''
      else Sleep (java_delay_ms attempt))"

definition java_makeRequest :: "int \<Rightarrow> server \<Rightarrow> run" where
  "java_makeRequest maxRetries srv = retry_loop java_delay maxRetries srv 1 []"

text \<open>
  Go: \<^verbatim>\<open>time.Duration(min(1000*int64(1<<(attempt-1)), 10000)) * time.Millisecond\<close>. The
  shift, the product and the conversion to nanoseconds are computed in 64 bits and wrap;
  \<^verbatim>\<open>time.Sleep\<close> returns at once for a duration that is zero or negative.
\<close>

definition go_delay_ns :: "nat \<Rightarrow> int" where
  "go_delay_ns attempt =
     sint (word_of_int (min (sint (1000 * (push_bit (attempt - 1) 1 :: 64 word))) 10000) * 1000000
             :: 64 word)"

definition go_delay :: "nat \<Rightarrow> backoff" where
  "go_delay attempt =
     Sleep (if go_delay_ns attempt \<le> 0 then 0 else go_delay_ns attempt div 1000000)"

definition go_makeRequest :: "int \<Rightarrow> server \<Rightarrow> run" where
  "go_makeRequest maxRetries srv = retry_loop go_delay maxRetries srv 1 []"

section \<open>Notions of the specification\<close>

text \<open>
  The kind of authentication a declared security scheme stands for, if it is one of the
  four the specification names.
\<close>

definition scheme_kind :: "security_scheme \<Rightarrow> string option" where
  "scheme_kind s =
     (if ss_type s = Some ''http'' \<and> ss_scheme s = Some ''bearer'' then Some ''bearer''
      else if ss_type s = Some ''http'' \<and> ss_scheme s = Some ''basic'' then Some ''basic''
      else if ss_type s = Some ''apiKey'' then Some ''apiKey''
      else if ss_type s = Some ''oauth2'' then Some ''oauth2''
      else None)"

text \<open>
  The specification's reading of the scan: the kinds are tried in the fixed priority order
  bearer, basic, apiKey, oauth2, and the first kind that some declared scheme has is the
  result; \<open>none\<close> if there is no such scheme.
\<close>

definition priority_auth_type :: "security_scheme list \<Rightarrow> string" where
  "priority_auth_type schemes =
     (case List.find (\<lambda>k. k \<in> set (List.map_filter scheme_kind schemes))
             [''bearer'', ''basic'', ''apiKey'', ''oauth2''] of
        Some k \<Rightarrow> k
      | None \<Rightarrow> ''none'')"

text \<open>
  The leaf requests of a collection as the specification words them, in document order,
  each with the folder path of its ancestors: an item with a \<^verbatim>\<open>request\<close> object is a
  request, an item with a nested \<^verbatim>\<open>item\<close> array is a folder, whose items are visited
  under its name. An item may be both.
\<close>

fun leaf_requests :: "pm_item list \<Rightarrow> string \<Rightarrow> (pm_item \<times> string) list"
  and leaf_requests_of :: "pm_item \<Rightarrow> string \<Rightarrow> (pm_item \<times> string) list" where
  "leaf_requests [] parentPath = []"
| "leaf_requests (it # items) parentPath =
     leaf_requests_of it parentPath @ leaf_requests items parentPath"
| "leaf_requests_of NullItem parentPath = []"
| "leaf_requests_of (Item name descr req children resps) parentPath =
     (case req of
        Some (RequestObject request) \<Rightarrow> [(Item name descr req children resps, parentPath)]
      | _ \<Rightarrow> [])
     @ (case children of
          Some cs \<Rightarrow>
            leaf_requests cs
              (if parentPath \<noteq> [] then parentPath @ ''/'' @ or_str name ''unnamed''
               else or_str name ''unnamed'')
        | None \<Rightarrow> [])"

text \<open>
  The entries of the leaf requests, in their order, and what the normalizer makes of
  them: the message of the first error, if computing an entry throws; otherwise the
  endpoints of the leaf requests that have one.
\<close>

definition leaf_entries ::
  "url_constructor \<Rightarrow> (pm_item \<times> string) list \<Rightarrow> (string + endpoint option) list" where
  "leaf_entries URL leaves =
     map (\<lambda>(it, parentPath). extractEndpointFromRequest URL it parentPath) leaves"

definition collect_entries :: "(string + endpoint option) list \<Rightarrow> string + endpoint list" where
  "collect_entries entries =
     (case List.find isl entries of
        Some r \<Rightarrow> Inl (projl r)
      | None \<Rightarrow> Inr (List.map_filter (\<lambda>r. case r of Inl msg \<Rightarrow> None | Inr e \<Rightarrow> e) entries))"

text \<open>No item of the tree is a folder and has a request at the same time.\<close>

fun folders_without_request :: "pm_item list \<Rightarrow> bool"
  and folder_without_request :: "pm_item \<Rightarrow> bool" where
  "folders_without_request [] = True"
| "folders_without_request (it # items) =
     (folder_without_request it \<and> folders_without_request items)"
| "folder_without_request NullItem = True"
| "folder_without_request (Item name descr req children resps) =
     (case children of
        None \<Rightarrow> True
      | Some cs \<Rightarrow> \<not> has_request req \<and> folders_without_request cs)"

text \<open>The endpoints of a result, none if it is an error.\<close>

definition returned :: "string + endpoint list \<Rightarrow> endpoint list" where
  "returned r = (case r of Inl msg \<Rightarrow> [] | Inr eps \<Rightarrow> eps)"

text \<open>
  The names of the \<^verbatim>\<open>{name}\<close> placeholders of a path template, and the invariant the
  specification states for an endpoint: its path is non-empty, begins with \<^verbatim>\<open>/\<close>, and
  every placeholder has a parameter of that name with \<^verbatim>\<open>in = "path"\<close>.
\<close>

fun placeholders :: "string \<Rightarrow> string list" where
  "placeholders [] = []"
| "placeholders (c # cs) =
     (if c = CHR ''{'' \<and> CHR ''}'' \<in> set cs
      then takeWhile (\<lambda>d. d \<noteq> CHR ''}'') cs # placeholders cs
      else placeholders cs)"

definition path_invariant :: "endpoint \<Rightarrow> bool" where
  "path_invariant e =
     (ep_path e \<noteq> [] \<and> startsWith (ep_path e) ''/''
      \<and> list_all (\<lambda>n. list_ex (\<lambda>p. p_in p = ''path'' \<and> p_name p = Some n) (ep_parameters e))
           (placeholders (ep_path e)))"

text \<open>
  What the HTML normalizer relies on from the platform: the pathname of a parsed
  \<^verbatim>\<open>http\<close> or \<^verbatim>\<open>https\<close> URL begins with \<^verbatim>\<open>/\<close>.
\<close>

definition http_paths_rooted :: "url_constructor \<Rightarrow> bool" where
  "http_paths_rooted URL =
     (\<forall>s u. URL s = Some u \<longrightarrow>
        prefix ''http://'' (toLowerCase s) \<or> prefix ''https://'' (toLowerCase s) \<longrightarrow>
        prefix ''/'' (url_pathname u))"

text \<open>The pair by which the specification identifies an endpoint.\<close>

definition method_path :: "endpoint \<Rightarrow> string \<times> string" where
  "method_path e = (ep_method e, ep_path e)"

text \<open>
  The key under which the HTML normalizer remembers an endpoint it has kept, and the list
  of the first elements with each key, in order: the elements whose key is not in
  \<open>seen\<close> and not the key of an earlier element.
\<close>

definition endpoint_key :: "endpoint \<Rightarrow> string" where
  "endpoint_key e = ep_method e @ '':'' @ ep_path e"

fun first_by :: "('a \<Rightarrow> 'k) \<Rightarrow> 'a list \<Rightarrow> 'k set \<Rightarrow> 'a list" where
  "first_by key [] seen = []"
| "first_by key (x # xs) seen =
     (if key x \<in> seen then first_by key xs seen
      else x # first_by key xs (insert (key x) seen))"

text \<open>
  The declared parameter list of the method \<open>name\<close> in an emitted text: the text between
  the parenthesis that follows the first occurrence of the name and the next closing
  parenthesis, split at \<^verbatim>\<open>, \<close>.
\<close>

fun split_commas :: "string \<Rightarrow> string list" where
  "split_commas [] = [[]]"
| "split_commas [c] = [[c]]"
| "split_commas (c # d # cs) =
     (if c = CHR '','' \<and> d = CHR '' '' then [] # split_commas cs
      else (case split_commas (d # cs) of l # ls \<Rightarrow> (c # l) # ls | [] \<Rightarrow> [[c]]))"

definition declared_parameters :: "string \<Rightarrow> string \<Rightarrow> string list" where
  "declared_parameters method_text name =
     (case split_first (name @ ''('') method_text of
        None \<Rightarrow> []
      | Some (preceding, following) \<Rightarrow>
          (let inside = takeWhile (\<lambda>c. c \<noteq> CHR '')'') following
           in if inside = [] then [] else split_commas inside))"

text \<open>The backoff delay of the specification, in milliseconds, following the given attempt.\<close>

definition backoff_ms :: "nat \<Rightarrow> int" where
  "backoff_ms attempt = min (1000 * 2 ^ (attempt - 1)) 10000"


section \<open>Example inputs\<close>

text \<open>
  A stand-in for the platform's URL constructor on plain \<^verbatim>\<open>http://host/path\<close> inputs,
  used to instantiate \<open>URL\<close> in the examples: it rejects an input whose host is empty or
  has a character outside letters, digits, dot, hyphen and colon, as the platform does
  for \<^verbatim>\<open>http://[\<close>.
\<close>

definition authority_end :: "char \<Rightarrow> bool" where
  "authority_end c = (c = CHR ''/'' \<or> c = CHR ''?'' \<or> c = CHR ''#'')"

definition path_end :: "char \<Rightarrow> bool" where
  "path_end c = (c = CHR ''?'' \<or> c = CHR ''#'')"

definition scheme_split :: "string \<Rightarrow> (string \<times> string) option" where
  "scheme_split s =
     (if prefix ''http://'' (toLowerCase s) then Some (''http:'', drop 7 s)
      else if prefix ''https://'' (toLowerCase s) then Some (''https:'', drop 8 s)
      else None)"

definition host_part :: "string \<Rightarrow> string" where
  "host_part r = takeWhile (\<lambda>c. \<not> authority_end c) r"

definition host_ok :: "string \<Rightarrow> bool" where
  "host_ok host = (host \<noteq> [] \<and> list_all (\<lambda>c. is_alnum c \<or> c \<in> set ''.-:'') host)"

definition path_part :: "string \<Rightarrow> string" where
  "path_part r =
     (let pth = takeWhile (\<lambda>c. \<not> path_end c) (dropWhile (\<lambda>c. \<not> authority_end c) r)
      in if pth = [] then ''/'' else pth)"

definition simple_URL :: url_constructor where
  "simple_URL s =
     (case scheme_split s of
        None \<Rightarrow> None
      | Some (proto, r) \<Rightarrow>
          if host_ok (host_part r) then
            Some \<lparr>url_protocol = proto, url_host = toLowerCase (host_part r),
                  url_pathname = path_part r\<rparr>
          else None)"

definition scheme_of :: "string \<Rightarrow> string option \<Rightarrow> security_scheme" where
  "scheme_of t s =
     \<lparr>ss_type = Some t, ss_scheme = s, ss_name = None, ss_in = None, ss_description = None\<rparr>"

definition api_with_schemes :: "(string \<times> security_scheme) list \<Rightarrow> openapi" where
  "api_with_schemes ss =
     \<lparr>oa_servers = None, oa_host = None, oa_securitySchemes = Some ss, oa_paths = None,
      oa_security = None, oa_info = None\<rparr>"

text \<open>An OAuth2 scheme declared before an HTTP bearer scheme.\<close>

definition oauth_then_bearer :: "(string \<times> security_scheme) list" where
  "oauth_then_bearer =
     [(''oauth'', scheme_of ''oauth2'' None),
      (''bearerAuth'', scheme_of ''http'' (Some ''bearer''))]"

text \<open>A required request body whose only media type has no schema.\<close>

definition required_body_without_schema :: request_body_object where
  "required_body_without_schema =
     \<lparr>rb_content = Some [(''application/json'', \<lparr>mt_schema = None, mt_example = Some (JStr ''x'')\<rparr>)],
      rb_required = Some True\<rparr>"

definition request_to :: "string option \<Rightarrow> string list \<Rightarrow> pm_header list \<Rightarrow> pm_request_value" where
  "request_to raw segments headers =
     RequestObject
       \<lparr>req_url = Some (UrlObject raw (Some (PathSegments (map SegmentString segments))) None),
        req_method = Some ''GET'', req_header = Some (HeaderList headers), req_body = None,
        req_auth = None\<rparr>"

definition get_request :: "string \<Rightarrow> string list \<Rightarrow> pm_header list \<Rightarrow> pm_item" where
  "get_request name segments headers =
     Item (Some name) None
       (Some (request_to (Some (''{{baseUrl}}/'' @ join ''/'' segments)) segments headers))
       None None"

definition folder :: "string \<Rightarrow> pm_item list \<Rightarrow> pm_item" where
  "folder name items = Item (Some name) None None (Some items) None"

definition collection_of :: "pm_item list \<Rightarrow> pm_collection" where
  "collection_of items =
     \<lparr>col_variable = None, col_auth = None, col_item = Some items, col_info = None\<rparr>"

definition header_of :: "string \<Rightarrow> string \<Rightarrow> pm_header" where
  "header_of k v =
     \<lparr>hdr_key = Some k, hdr_value = Some v, hdr_description = None, hdr_disabled = None\<rparr>"

text \<open>The same request, \<^verbatim>\<open>GET /users\<close>, in two folders.\<close>

definition two_folders :: pm_collection where
  "two_folders =
     collection_of
       [folder ''Admin'' [get_request ''List users'' [''users''] []],
        folder ''Public'' [get_request ''List users'' [''users''] []]]"

text \<open>
  The same two folders, the URL of each request an object with the \<^verbatim>\<open>path\<close>
  \<^verbatim>\<open>["users"]\<close> and no \<^verbatim>\<open>raw\<close>.
\<close>

definition get_without_raw :: "string \<Rightarrow> string list \<Rightarrow> pm_item" where
  "get_without_raw name segments = Item (Some name) None (Some (request_to None segments [])) None None"

definition two_folders_without_raw :: pm_collection where
  "two_folders_without_raw =
     collection_of
       [folder ''Admin'' [get_without_raw ''List users'' [''users'']],
        folder ''Public'' [get_without_raw ''List users'' [''users'']]]"

text \<open>
  The two folders again, where the item Admin also has a request of its own,
  \<^verbatim>\<open>GET /admin\<close>.
\<close>

definition request_folder :: pm_collection where
  "request_folder =
     collection_of
       [Item (Some ''Admin'') None
          (Some (request_to (Some ''{{baseUrl}}/admin'') [''admin''] []))
          (Some [get_request ''List users'' [''users''] []]) None,
        folder ''Public'' [get_request ''List users'' [''users''] []]]"

text \<open>A request whose \<^verbatim>\<open>url.path\<close> is the string \<^verbatim>\<open>users\<close>.\<close>

definition string_path :: pm_collection where
  "string_path =
     collection_of
       [Item (Some ''List users'') None
          (Some (RequestObject
             \<lparr>req_url = Some (UrlObject (Some ''{{baseUrl}}/users'') (Some (PathString ''users'')) None),
              req_method = Some ''GET'', req_header = None, req_body = None, req_auth = None\<rparr>))
          None None]"

text \<open>A request that sends an \<^verbatim>\<open>Authorization\<close> header and an \<^verbatim>\<open>X-Trace\<close> header.\<close>

definition with_auth_header :: pm_collection where
  "with_auth_header =
     collection_of
       [get_request ''Me'' [''me'']
          [header_of ''Authorization'' ''Bearer {{token}}'', header_of ''X-Trace'' ''1'']]"

definition auth_header_endpoint :: endpoint where
  "auth_header_endpoint = hd (returned (postman_extractEndpoints simple_URL with_auth_header))"

definition auth_header_parameter :: parameter where
  "auth_header_parameter = hd (ep_parameters auth_header_endpoint)"

text \<open>A request whose path has the placeholder \<^verbatim>\<open>{id}\<close>.\<close>

definition user_by_id :: pm_collection where
  "user_by_id = collection_of [get_request ''Get user'' [''users'', ''{id}''] []]"

definition user_by_id_endpoint :: endpoint where
  "user_by_id_endpoint = hd (returned (postman_extractEndpoints simple_URL user_by_id))"

text \<open>
  The document \<^verbatim>\<open><code>http://[</code>\<close> as the queries see it: one code block
  inside the body; no element contains any of the base-URL phrases.
\<close>

definition broken_url_code_block :: cheerio where
  "broken_url_code_block selector =
     (let html = Element ''http://['' [] None;
          body = Element ''http://['' [] (Some html);
          code = Element ''http://['' [] (Some body)
      in if selector = ''code, pre'' \<or> selector = ''code'' then [code]
         else if selector = ''*'' then [html, Element [] [] (Some html), body, code]
         else [])"

text \<open>
  A document with a heading \<^verbatim>\<open>GET /users\<close> in one section and a code block
  \<^verbatim>\<open>GET /users\<close> in another, as the queries see it.
\<close>

definition users_twice :: cheerio where
  "users_twice selector =
     (let first_section = Element (''GET /users'' @ [CHR 0x0A] @ ''Returns the list of users.'') [] None;
          second_section = Element (''Call it like this:'' @ [CHR 0x0A] @ ''GET /users'') [] None;
          heading = Element ''GET /users'' [] (Some first_section);
          code = Element ''GET /users'' [] (Some second_section)
      in if selector = ''h1, h2, h3, h4, h5, h6'' then [heading]
         else if selector = ''code'' \<or> selector = ''code, pre'' then [code]
         else if selector = ''*'' then [first_section, heading, second_section, code]
         else [])"

text \<open>
  The OpenAPI document of the specification's end-to-end scenario: one path
  \<^verbatim>\<open>/pets/{id}\<close> with a \<^verbatim>\<open>get\<close> operation that declares the path parameter \<^verbatim>\<open>id\<close>.
\<close>

definition pets_api :: openapi where
  "pets_api =
     \<lparr>oa_servers = None, oa_host = None, oa_securitySchemes = None,
      oa_paths = Some
        [(''/pets/{id}'',
          [(''get'',
            \<lparr>op_summary = None, op_description = None, op_operationId = Some ''getPet'',
             op_parameters = Some
               [\<lparr>prm_name = Some ''id'', prm_in = ''path'', prm_required = Some True,
                 prm_schema = Some \<lparr>so_type = Some ''string'', so_properties = None,
                                     so_required = None, so_example = None, so_format = None,
                                     so_enum = None\<rparr>,
                 prm_description = None, prm_example = None\<rparr>],
             op_requestBody = None, op_responses = None, op_security = None,
             op_tags = None\<rparr>)])],
      oa_security = None,
      oa_info = Some \<lparr>info_title = Some ''Pets'', info_version = Some ''1.0'',
                       info_description = None\<rparr>\<rparr>"

text \<open>
  An endpoint \<^verbatim>\<open>PUT /users/{id}?notify=...\<close> with a path parameter, a query parameter
  and a request body.
\<close>

definition string_parameter :: "string \<Rightarrow> string \<Rightarrow> parameter" where
  "string_parameter name loc =
     \<lparr>p_name = Some name, p_in = loc, p_required = False, p_type = ''string'',
      p_description = '''', p_example = None, p_format = None, p_enum = None\<rparr>"

definition update_user :: endpoint where
  "update_user =
     \<lparr>ep_method = ''PUT'', ep_path = ''/users/{id}'', ep_fullUrl = ''/users/{id}'',
      ep_summary = ''Update a user'', ep_description = '''', ep_operationId = ''updateUser'',
      ep_parameters = [string_parameter ''id'' ''path'', string_parameter ''notify'' ''query''],
      ep_requestBody = Some \<lparr>b_required = True, b_mediaType = ''application/json'',
                              b_schema = \<lparr>sk_type = Some ''object'', sk_properties = [],
                                          sk_required = None, sk_example = None\<rparr>\<rparr>,
      ep_responses = [], ep_security = [], ep_tags = []\<rparr>"

text \<open>A server that answers every attempt with the status 500, and one that answers 404.\<close>

definition always_500 :: server where
  "always_500 n = FailsWithStatus 500"

definition always_404 :: server where
  "always_404 n = FailsWithStatus 404"


text \<open>
  A document with a heading \<^verbatim>\<open>put:/a PUT\<close> and a code block \<^verbatim>\<open>http://h/A:/PUT\<close>,
  as the queries see it.
\<close>

definition colliding_keys :: cheerio where
  "colliding_keys selector =
     (let body = Element (''put:/a PUT'' @ [CHR 0x0A] @ ''http://h/A:/PUT'') [] None;
          heading = Element ''put:/a PUT'' [] (Some body);
          code = Element ''http://h/A:/PUT'' [] (Some body)
      in if selector = ''h1, h2, h3, h4, h5, h6'' then [heading]
         else if selector = ''code'' \<or> selector = ''code, pre'' then [code]
         else if selector = ''*'' then [body, heading, code]
         else [])"

text \<open>A document whose only heading reads \<^verbatim>\<open>GET /users/{user-id}\<close>, as the queries see it.\<close>

definition hyphen_placeholder :: cheerio where
  "hyphen_placeholder selector =
     (let body = Element ''GET /users/{user-id}'' [] None;
          heading = Element ''GET /users/{user-id}'' [] (Some body)
      in if selector = ''h1, h2, h3, h4, h5, h6'' then [heading]
         else if selector = ''*'' then [body, heading]
         else [])"

text \<open>
  An OpenAPI document with the two paths \<^verbatim>\<open>pets/{id}\<close> and the empty string, each with
  a \<^verbatim>\<open>get\<close> operation that declares no parameters.
\<close>

definition plain_operation :: operation where
  "plain_operation =
     \<lparr>op_summary = None, op_description = None, op_operationId = None, op_parameters = None,
      op_requestBody = None, op_responses = None, op_security = None, op_tags = None\<rparr>"

definition unrooted_api :: openapi where
  "unrooted_api =
     \<lparr>oa_servers = None, oa_host = None, oa_securitySchemes = None,
      oa_paths = Some [(''pets/{id}'', [(''get'', plain_operation)]),
                       ([], [(''get'', plain_operation)])],
      oa_security = None, oa_info = None\<rparr>"
section \<open>The OpenAPI/Swagger normalizer: authentication and request bodies\<close>

lemma scheme_auth_kind: "map_option am_type (scheme_auth s) = scheme_kind s"
  by (simp add: scheme_auth_def scheme_kind_def)

lemma scan_schemes_kind:
  "am_type (scan_schemes ss) =
     (case List.map_filter scheme_kind (map snd ss) of [] \<Rightarrow> ''none'' | k # ks \<Rightarrow> k)"
proof (induction ss rule: scan_schemes.induct)
  case 1
  then show ?case by (simp add: List.map_filter_simps auth_none_def)
next
  case (2 name scheme rest)
  show ?case
  proof (cases "scheme_auth scheme")
    case None
    then have "scheme_kind scheme = None"
      using scheme_auth_kind [of scheme] by simp
    with None 2 show ?thesis by (simp add: List.map_filter_simps)
  next
    case (Some a)
    then have "scheme_kind scheme = Some (am_type a)"
      using scheme_auth_kind [of scheme] by simp
    with Some show ?thesis by (simp add: List.map_filter_simps)
  qed
qed

text \<open>
  Claim C4, as amended. The normalizer goes through the declared security schemes in the
  order the document declares them and returns the variant of the first scheme that is
  HTTP bearer, HTTP basic, apiKey or oauth2, whichever of the four kinds that is; when no
  declared scheme has one of these kinds (in particular when none is declared) the result
  is the \<open>none\<close> variant.
\<close>

theorem extractAuthMethod_first_declared:
  "am_type (extractAuthMethod api) =
     (case List.map_filter scheme_kind (map snd (or_list (oa_securitySchemes api))) of
        [] \<Rightarrow> ''none''
      | k # ks \<Rightarrow> k)"
  by (simp add: extractAuthMethod_def scan_schemes_kind)

text \<open>
  Claim C4, as stated, fails: with an oauth2 scheme declared before an HTTP bearer scheme
  the normalizer returns oauth2, where the fixed priority order would return bearer.
\<close>

theorem extractAuthMethod_not_by_priority:
  "am_type (extractAuthMethod (api_with_schemes oauth_then_bearer)) = ''oauth2''
   \<and> priority_auth_type (map snd oauth_then_bearer) = ''bearer''"
  by (simp add: extractAuthMethod_def api_with_schemes_def oauth_then_bearer_def scheme_of_def
      or_list_def scheme_auth_def priority_auth_type_def List.map_filter_simps scheme_kind_def)

text \<open>
  Claim C10. When the first listed media type of a declared request body carries no
  schema, the operation's request-body descriptor is null, whatever the body's
  \<^verbatim>\<open>required\<close> flag says. (A media type is a non-empty key.)
\<close>

theorem extractRequestBody_null_without_schema:
  assumes "rb_content rb = Some ((k, mt) # rest)" and "k \<noteq> []" and "mt_schema mt = None"
  shows "extractRequestBody (Some rb) = None"
  using assms by (simp add: extractRequestBody_def or_list_def first_media_type_def)

text \<open>Claim C10 at a body marked required whose only media type has an example and no schema.\<close>

theorem extractRequestBody_null_without_schema_witness:
  "rb_required required_body_without_schema = Some True
   \<and> rb_content required_body_without_schema =
       Some [(''application/json'', \<lparr>mt_schema = None, mt_example = Some (JStr ''x'')\<rparr>)]
   \<and> extractRequestBody (Some required_body_without_schema) = None"
proof -
  have c: "rb_content required_body_without_schema =
      Some ((''application/json'', \<lparr>mt_schema = None, mt_example = Some (JStr ''x'')\<rparr>) # [])"
    by (simp add: required_body_without_schema_def)
  have k: "''application/json'' \<noteq> []" by simp
  have s: "mt_schema \<lparr>mt_schema = None, mt_example = Some (JStr ''x'')\<rparr> = None" by simp
  have "extractRequestBody (Some required_body_without_schema) = None"
    by (rule extractRequestBody_null_without_schema [OF c k s])
  with c show ?thesis by (simp add: required_body_without_schema_def)
qed

section \<open>The Postman normalizer: no deduplication, header parameters\<close>

lemma collect_entries_Nil: "collect_entries [] = Inr []"
  by (simp add: collect_entries_def List.map_filter_simps)

lemma collect_entries_Cons:
  "collect_entries (r # rs) =
     (case r of
        Inl msg \<Rightarrow> Inl msg
      | Inr e \<Rightarrow>
          (case collect_entries rs of
             Inl msg \<Rightarrow> Inl msg
           | Inr eps \<Rightarrow> Inr ((case e of Some endpoint \<Rightarrow> [endpoint] | None \<Rightarrow> []) @ eps)))"
  by (cases r; cases "List.find isl rs")
     (simp_all add: collect_entries_def List.map_filter_simps split: option.splits)

lemma collect_entries_append:
  "collect_entries (xs @ ys) =
     (case collect_entries xs of
        Inl msg \<Rightarrow> Inl msg
      | Inr a \<Rightarrow> (case collect_entries ys of Inl msg \<Rightarrow> Inl msg | Inr b \<Rightarrow> Inr (a @ b)))"
  by (induction xs)
     (simp_all add: collect_entries_Nil collect_entries_Cons split: sum.splits option.splits)

lemma leaf_entries_append:
  "leaf_entries URL (xs @ ys) = leaf_entries URL xs @ leaf_entries URL ys"
  by (simp add: leaf_entries_def)

lemma processItems_leaves:
  "folders_without_request items \<Longrightarrow>
   processItems URL items parentPath eps =
     (case collect_entries (leaf_entries URL (leaf_requests items parentPath)) of
        Inl msg \<Rightarrow> Inl msg
      | Inr new \<Rightarrow> Inr (eps @ new))"
  "folder_without_request it \<Longrightarrow>
   processItem URL it parentPath eps =
     (case collect_entries (leaf_entries URL (leaf_requests_of it parentPath)) of
        Inl msg \<Rightarrow> Inl msg
      | Inr new \<Rightarrow> Inr (eps @ new))"
proof (induction URL items parentPath eps and URL it parentPath eps
       rule: processItems_processItem.induct)
  case (1 URL parentPath eps)
  show ?case by (simp add: leaf_entries_def collect_entries_Nil)
next
  case (2 URL it items parentPath eps)
  from 2(3) have a: "folder_without_request it" and b: "folders_without_request items"
    by simp_all
  note first = 2(1) [OF a]
  show ?case
  proof (cases "processItem URL it parentPath eps")
    case (Inl msg)
    with first show ?thesis
      by (simp add: leaf_entries_append collect_entries_append split: sum.splits)
  next
    case (Inr eps')
    from 2(2) [OF Inr b] Inr first show ?thesis
      by (simp add: leaf_entries_append collect_entries_append split: sum.splits)
  qed
next
  case (3 URL parentPath eps)
  show ?case by (simp add: leaf_entries_def collect_entries_Nil)
next
  case (4 URL name descr req children resps parentPath eps)
  show ?case
  proof (cases "has_request req")
    case True
    with 4(2) have c: "children = None" by (cases children) simp_all
    show ?thesis
    proof (cases req)
      case None
      with True show ?thesis by (simp add: has_request_def)
    next
      case (Some v)
      show ?thesis
      proof (cases v)
        case (RequestString s)
        with Some True c show ?thesis
          by (simp add: leaf_entries_def collect_entries_Nil extractEndpointFromRequest_def)
      next
        case (RequestObject request)
        with Some True c show ?thesis
          by (simp add: leaf_entries_def collect_entries_Nil collect_entries_Cons
              split: sum.splits option.splits)
      qed
    qed
  next
    case False
    then have r: "(case req of Some (RequestObject request) \<Rightarrow>
                     [(Item name descr req c resps, parentPath)] | _ \<Rightarrow> []) = []" for c
      by (auto simp: has_request_def split: option.splits pm_request_value.splits)
    show ?thesis
    proof (cases children)
      case None
      with False r show ?thesis by (simp add: leaf_entries_def collect_entries_Nil)
    next
      case (Some cs)
      with 4(2) have "folders_without_request cs" by simp
      from 4(1) [OF False Some this] False Some r show ?thesis by simp
    qed
  qed
qed

lemma postman_endpoints_leaves:
  assumes "folders_without_request (or_list (col_item collection))"
  shows "postman_extractEndpoints URL collection =
     collect_entries (leaf_entries URL (leaf_requests (or_list (col_item collection)) []))"
proof (cases "col_item collection")
  case None
  then show ?thesis
    by (simp add: postman_extractEndpoints_def or_list_def leaf_entries_def collect_entries_Nil)
next
  case (Some items)
  with assms have "folders_without_request items" by (simp add: or_list_def)
  from processItems_leaves(1) [OF this, of URL "[]" "[]"] Some show ?thesis
    by (simp add: postman_extractEndpoints_def or_list_def split: sum.splits)
qed

text \<open>
  Claim C8. The Postman normalizer performs no deduplication. For a collection in which
  no item that has a request also has a nested item array, the result is determined by
  the leaf requests in document order: the normalizer raises if computing the entry of
  some leaf request raises, and otherwise returns one entry for every leaf request whose
  URL is a non-empty string or an object with a non-empty \<^verbatim>\<open>raw\<close>, in that order, each
  computed from that request and its folder ancestry alone. Two such leaf requests with
  the same method and path in different folders therefore both appear, as separate
  entries.
\<close>

theorem postman_no_deduplication:
  assumes "folders_without_request (or_list (col_item collection))"
  shows "postman_extractEndpoints URL collection =
     collect_entries
       (map (\<lambda>(it, parentPath). extractEndpointFromRequest URL it parentPath)
          (leaf_requests (or_list (col_item collection)) []))"
  using postman_endpoints_leaves [OF assms, of URL] by (simp add: leaf_entries_def)

text \<open>
  Claim C8 at a collection with \<^verbatim>\<open>GET /users\<close> in the folders Admin and Public: the
  result has both, told apart by their tags.
\<close>

theorem postman_no_deduplication_witness:
  "folders_without_request (or_list (col_item two_folders))
   \<and> map (\<lambda>(it, parentPath). (item_name it, parentPath))
        (leaf_requests (or_list (col_item two_folders)) [])
     = [(Some ''List users'', ''Admin''), (Some ''List users'', ''Public'')]
   \<and> map_sum id (map (\<lambda>e. (ep_method e, ep_path e, ep_tags e)))
        (postman_extractEndpoints simple_URL two_folders)
     = Inr [(''GET'', ''/users'', [''Admin'']), (''GET'', ''/users'', [''Public''])]"
proof -
  have h: "folders_without_request (or_list (col_item two_folders))" by code_simp
  have l: "map (\<lambda>(it, parentPath). (item_name it, parentPath))
        (leaf_requests (or_list (col_item two_folders)) [])
     = [(Some ''List users'', ''Admin''), (Some ''List users'', ''Public'')]" by code_simp
  have v: "map_sum id (map (\<lambda>e. (ep_method e, ep_path e, ep_tags e)))
       (collect_entries
         (map (\<lambda>(it, parentPath). extractEndpointFromRequest simple_URL it parentPath)
            (leaf_requests (or_list (col_item two_folders)) [])))
     = Inr [(''GET'', ''/users'', [''Admin'']), (''GET'', ''/users'', [''Public''])]"
    by code_simp
  from postman_no_deduplication [OF h, of simple_URL] v
  have "map_sum id (map (\<lambda>e. (ep_method e, ep_path e, ep_tags e)))
        (postman_extractEndpoints simple_URL two_folders)
     = Inr [(''GET'', ''/users'', [''Admin'']), (''GET'', ''/users'', [''Public''])]"
    by (simp only:)
  with h l show ?thesis by (intro conjI)
qed

text \<open>
  The claim as stated fails at two collections. In the first, the two requests
  \<^verbatim>\<open>GET users\<close> of the folders Admin and Public have a URL object without \<^verbatim>\<open>raw\<close>,
  for which \<open>extractEndpointFromRequest\<close> returns \<^verbatim>\<open>null\<close>: neither appears. In the
  second, the item Admin has a request of its own and is not descended into: of the two
  requests \<^verbatim>\<open>GET /users\<close> only the one of Public appears.
\<close>

theorem postman_leaf_requests_left_out:
  "map (\<lambda>(it, parentPath). (item_name it, parentPath))
     (leaf_requests (or_list (col_item two_folders_without_raw)) [])
   = [(Some ''List users'', ''Admin''), (Some ''List users'', ''Public'')]
   \<and> postman_extractEndpoints simple_URL two_folders_without_raw = Inr []
   \<and> map (\<lambda>(it, parentPath). (item_name it, parentPath))
       (leaf_requests (or_list (col_item request_folder)) [])
     = [(Some ''Admin'', []), (Some ''List users'', ''Admin''), (Some ''List users'', ''Public'')]
   \<and> map (\<lambda>e. (ep_method e, ep_path e, ep_tags e))
       (returned (postman_extractEndpoints simple_URL request_folder))
     = [(''GET'', ''/admin'', []), (''GET'', ''/users'', [''Public''])]"
  by code_simp

text \<open>
  A \<^verbatim>\<open>url.path\<close> that is a string makes \<^verbatim>\<open>url.path?.join\<close> throw, and \<open>parsePostman\<close>
  fails with the message of that error.
\<close>

lemma parsePostman_string_path:
  "parsePostman simple_URL ''{}'' (Inr (Some string_path))
   = Inl ''Failed to parse Postman Collection: url.path?.join is not a function''"
  by code_simp

lemma header_parameters_name:
  assumes "p \<in> set (header_parameters hs)"
  shows "\<exists>n. p_name p = Some n \<and> \<not> str_includes (toLowerCase n) ''authorization''"
  using assms by (auto simp: header_parameters_def split: option.splits)

lemma extractQueryParams_in: "p \<in> set (extractQueryParams qs) \<Longrightarrow> p_in p = ''query''"
  by (auto simp: extractQueryParams_def)

lemma endpoint_parameters:
  assumes "extractEndpointFromRequest URL it parentPath = Inr (Some e)"
  shows "\<exists>qs hs. ep_parameters e = extractQueryParams qs @ header_parameters hs"
proof (cases it)
  case NullItem
  with assms show ?thesis by (simp add: extractEndpointFromRequest_def)
next
  case (Item name descr req children resps)
  show ?thesis
  proof (cases req)
    case None
    with assms Item show ?thesis by (simp add: extractEndpointFromRequest_def)
  next
    case (Some v)
    show ?thesis
    proof (cases v)
      case (RequestString s)
      with assms Item Some show ?thesis by (simp add: extractEndpointFromRequest_def)
    next
      case (RequestObject request)
      with assms Item Some
      have "\<exists>hs. ep_parameters e =
              extractQueryParams (request_query (req_url request)) @ header_parameters hs"
        by (auto simp: extractEndpointFromRequest_def Let_def
            split: sum.splits option.splits prod.splits)
      then show ?thesis by blast
    qed
  qed
qed

lemma endpoint_header_parameter:
  assumes "extractEndpointFromRequest URL it parentPath = Inr (Some e)"
    and "p \<in> set (ep_parameters e)" and "p_in p = ''header''"
  shows "\<exists>n. p_name p = Some n \<and> \<not> str_includes (toLowerCase n) ''authorization''"
proof -
  from endpoint_parameters [OF assms(1)] obtain qs hs
    where ps: "ep_parameters e = extractQueryParams qs @ header_parameters hs"
    by blast
  from assms(2,3) ps have "p \<in> set (header_parameters hs)"
    using extractQueryParams_in by fastforce
  then show ?thesis by (rule header_parameters_name)
qed

text \<open>Every endpoint of the result was pushed for some item.\<close>

lemma processItems_origin:
  "processItems URL items parentPath eps = Inr out \<Longrightarrow> e \<in> set out \<Longrightarrow>
   e \<in> set eps \<or> (\<exists>it pp. extractEndpointFromRequest URL it pp = Inr (Some e))"
  "processItem URL it0 parentPath eps = Inr out \<Longrightarrow> e \<in> set out \<Longrightarrow>
   e \<in> set eps \<or> (\<exists>it pp. extractEndpointFromRequest URL it pp = Inr (Some e))"
proof (induction URL items parentPath eps and URL it0 parentPath eps arbitrary: out and out
       rule: processItems_processItem.induct)
  case (1 URL parentPath eps)
  then show ?case by simp
next
  case (2 URL it items parentPath eps)
  from 2(3) obtain eps' where first: "processItem URL it parentPath eps = Inr eps'"
    and rest: "processItems URL items parentPath eps' = Inr out"
    by (cases "processItem URL it parentPath eps") simp_all
  from 2(2) [OF first rest 2(4)]
  show ?case
  proof
    assume "e \<in> set eps'"
    with 2(1) [OF first] show ?thesis .
  next
    assume "\<exists>it pp. extractEndpointFromRequest URL it pp = Inr (Some e)"
    then show ?thesis ..
  qed
next
  case (3 URL parentPath eps)
  then show ?case by simp
next
  case (4 URL name descr req children resps parentPath eps)
  show ?case
  proof (cases "has_request req")
    case True
    show ?thesis
    proof (cases "extractEndpointFromRequest URL (Item name descr req children resps) parentPath")
      case (Inl msg)
      with True 4(2) show ?thesis by simp
    next
      case (Inr r)
      show ?thesis
      proof (cases r)
        case None
        with Inr True 4(2,3) show ?thesis by simp
      next
        case (Some endpoint)
        with Inr True 4(2) have "out = eps @ [endpoint]" by simp
        with 4(3) have "e \<in> set eps \<or> e = endpoint" by auto
        then show ?thesis
        proof
          assume "e \<in> set eps" then show ?thesis ..
        next
          assume "e = endpoint"
          with Inr Some
          have "extractEndpointFromRequest URL (Item name descr req children resps) parentPath
                = Inr (Some e)" by simp
          then have "\<exists>it pp. extractEndpointFromRequest URL it pp = Inr (Some e)" by blast
          then show ?thesis ..
        qed
      qed
    qed
  next
    case False
    show ?thesis
    proof (cases children)
      case None
      with False 4(2,3) show ?thesis by simp
    next
      case (Some cs)
      with False 4(2)
      have "processItems URL cs
              (if parentPath \<noteq> [] then parentPath @ ''/'' @ or_str name ''unnamed''
               else or_str name ''unnamed'') eps = Inr out" by simp
      from 4(1) [OF False Some this 4(3)] show ?thesis .
    qed
  qed
qed

lemma postman_endpoint_origin:
  assumes "postman_extractEndpoints URL collection = Inr eps" and "e \<in> set eps"
  shows "\<exists>it pp. extractEndpointFromRequest URL it pp = Inr (Some e)"
proof (cases "col_item collection")
  case None
  with assms show ?thesis by (simp add: postman_extractEndpoints_def)
next
  case (Some items)
  with assms(1) have "processItems URL items [] [] = Inr eps"
    by (simp add: postman_extractEndpoints_def)
  from processItems_origin(1) [OF this assms(2)] show ?thesis by simp
qed

text \<open>
  Claim C9. Every parameter with \<^verbatim>\<open>in = "header"\<close> of an endpoint the Postman
  normalizer returns has a name, and the name does not contain \<^verbatim>\<open>authorization\<close>
  when compared without regard to case: request headers whose key contains it are left
  out of the parameter list.
\<close>

theorem postman_header_parameters_exclude_authorization:
  assumes "postman_extractEndpoints URL collection = Inr eps" and "e \<in> set eps"
    and "p \<in> set (ep_parameters e)" and "p_in p = ''header''"
  shows "\<exists>n. p_name p = Some n \<and> \<not> str_includes (toLowerCase n) ''authorization''"
proof -
  from postman_endpoint_origin [OF assms(1,2)] obtain it parentPath
    where "extractEndpointFromRequest URL it parentPath = Inr (Some e)" by blast
  then show ?thesis using assms(3,4) by (rule endpoint_header_parameter)
qed

text \<open>
  Claim C9 at a request with the headers \<^verbatim>\<open>Authorization\<close> and \<^verbatim>\<open>X-Trace\<close>: the
  endpoint's only parameter is the header parameter \<^verbatim>\<open>X-Trace\<close>.
\<close>

theorem postman_header_parameters_exclude_authorization_witness:
  "postman_extractEndpoints simple_URL with_auth_header = Inr [auth_header_endpoint]
   \<and> auth_header_endpoint \<in> set [auth_header_endpoint]
   \<and> auth_header_parameter \<in> set (ep_parameters auth_header_endpoint)
   \<and> p_in auth_header_parameter = ''header''
   \<and> map p_name (ep_parameters auth_header_endpoint) = [Some ''X-Trace'']
   \<and> (\<exists>n. p_name auth_header_parameter = Some n
            \<and> \<not> str_includes (toLowerCase n) ''authorization'')"
proof -
  have r: "postman_extractEndpoints simple_URL with_auth_header = Inr [auth_header_endpoint]"
    by code_simp
  have e: "auth_header_endpoint \<in> set [auth_header_endpoint]" by simp
  have p: "auth_header_parameter \<in> set (ep_parameters auth_header_endpoint)"
    by code_simp
  have h: "p_in auth_header_parameter = ''header''"
    by code_simp
  have n: "map p_name (ep_parameters auth_header_endpoint) = [Some ''X-Trace'']"
    by code_simp
  from postman_header_parameters_exclude_authorization [OF r e p h] r e p h n
  show ?thesis by (intro conjI)
qed
section \<open>The HTML normalizer: deduplication\<close>

lemma remove_duplicates_first_by:
  "remove_duplicates es seen unique = unique @ first_by endpoint_key es seen"
  by (induction es arbitrary: seen unique) (simp_all add: endpoint_key_def Let_def)

lemma first_by_keys: "x \<in> set (first_by key xs seen) \<Longrightarrow> key x \<notin> seen"
  by (induction xs arbitrary: seen) (auto split: if_splits)

lemma first_by_subseq: "subseq (first_by key xs seen) xs"
  by (induction xs arbitrary: seen) auto

lemma first_by_distinct: "distinct (map key (first_by key xs seen))"
proof (induction xs arbitrary: seen)
  case Nil
  show ?case by simp
next
  case (Cons x xs)
  show ?case
  proof (cases "key x \<in> seen")
    case True
    with Cons show ?thesis by simp
  next
    case False
    have "key x \<notin> key ` set (first_by key xs (insert (key x) seen))"
    proof
      assume "key x \<in> key ` set (first_by key xs (insert (key x) seen))"
      then obtain y where y: "y \<in> set (first_by key xs (insert (key x) seen))"
        and k: "key x = key y" by blast
      from y have "key y \<notin> insert (key x) seen" by (rule first_by_keys)
      with k show False by simp
    qed
    moreover have "distinct (map key (first_by key xs (insert (key x) seen)))"
      by (rule Cons.IH)
    ultimately show ?thesis using False by simp
  qed
qed

lemma first_by_find:
  "e \<in> set (first_by key xs seen) \<Longrightarrow> List.find (\<lambda>c. key c = key e) xs = Some e"
proof (induction xs arbitrary: seen)
  case Nil
  then show ?case by simp
next
  case (Cons x xs)
  show ?case
  proof (cases "key x \<in> seen")
    case True
    with Cons.prems have e: "e \<in> set (first_by key xs seen)" by simp
    then have "key e \<notin> seen" by (rule first_by_keys)
    with True have "key x \<noteq> key e" by auto
    with Cons.IH [OF e] show ?thesis by simp
  next
    case False
    with Cons.prems have "e = x \<or> e \<in> set (first_by key xs (insert (key x) seen))"
      by simp
    then show ?thesis
    proof
      assume "e = x"
      then show ?thesis by simp
    next
      assume e: "e \<in> set (first_by key xs (insert (key x) seen))"
      then have "key e \<notin> insert (key x) seen" by (rule first_by_keys)
      then have "key x \<noteq> key e" by auto
      with Cons.IH [OF e] show ?thesis by simp
    qed
  qed
qed

lemma find_stronger_predicate:
  assumes "List.find Q xs = Some e" and "\<forall>x. P x \<longrightarrow> Q x" and "P e"
  shows "List.find P xs = Some e"
  using assms(1)
proof (induction xs)
  case Nil
  then show ?case by simp
next
  case (Cons x xs)
  show ?case
  proof (cases "Q x")
    case True
    with Cons.prems have "x = e" by simp
    with assms(3) show ?thesis by simp
  next
    case False
    with assms(2) have "\<not> P x" by blast
    moreover from False Cons.prems have "List.find Q xs = Some e" by simp
    ultimately show ?thesis using Cons.IH by simp
  qed
qed

lemma distinct_map_coarser:
  assumes "distinct (map f xs)" and "\<forall>x y. g x = g y \<longrightarrow> f x = f y"
  shows "distinct (map g xs)"
  using assms(1)
proof (induction xs)
  case Nil
  show ?case by simp
next
  case (Cons x xs)
  then have "f x \<notin> f ` set xs" and "distinct (map g xs)" by simp_all
  moreover have "g x \<notin> g ` set xs"
  proof
    assume "g x \<in> g ` set xs"
    then obtain y where "y \<in> set xs" and "g x = g y" by blast
    with assms(2) have "f x = f y" by blast
    with \<open>y \<in> set xs\<close> \<open>f x \<notin> f ` set xs\<close> show False by blast
  qed
  ultimately show ?case by simp
qed

lemma method_path_key:
  "\<forall>c e. method_path c = method_path e \<longrightarrow> endpoint_key c = endpoint_key e"
  by (simp add: method_path_def endpoint_key_def)

lemma first_by_keeps:
  "c \<in> set xs \<Longrightarrow> key c \<notin> seen \<Longrightarrow>
   \<exists>e \<in> set (first_by key xs seen). List.find (\<lambda>d. key d = key c) xs = Some e"
proof (induction xs arbitrary: seen)
  case Nil
  then show ?case by simp
next
  case (Cons x xs)
  show ?case
  proof (cases "key x = key c")
    case True
    with Cons.prems(2) have "key x \<notin> seen" by simp
    then have "x \<in> set (first_by key (x # xs) seen)" by simp
    moreover from True have "List.find (\<lambda>d. key d = key c) (x # xs) = Some x" by simp
    ultimately show ?thesis by (rule rev_bexI)
  next
    case False
    with Cons.prems(1) have c: "c \<in> set xs" by auto
    from False have f: "List.find (\<lambda>d. key d = key c) (x # xs) = List.find (\<lambda>d. key d = key c) xs"
      by simp
    show ?thesis
    proof (cases "key x \<in> seen")
      case True
      from Cons.IH [OF c Cons.prems(2)] obtain e where "e \<in> set (first_by key xs seen)"
        and "List.find (\<lambda>d. key d = key c) xs = Some e" ..
      with True f have "e \<in> set (first_by key (x # xs) seen)"
        and "List.find (\<lambda>d. key d = key c) (x # xs) = Some e" by simp_all
      then show ?thesis by (rule rev_bexI)
    next
      case notseen: False
      from False Cons.prems(2) have "key c \<notin> insert (key x) seen" by auto
      from Cons.IH [OF c this] obtain e
        where "e \<in> set (first_by key xs (insert (key x) seen))"
        and "List.find (\<lambda>d. key d = key c) xs = Some e" ..
      with notseen f have "e \<in> set (first_by key (x # xs) seen)"
        and "List.find (\<lambda>d. key d = key c) (x # xs) = Some e" by simp_all
      then show ?thesis by (rule rev_bexI)
    qed
  qed
qed

text \<open>
  Claim C7. The HTML normalizer keeps, of the candidates in discovery order, the first
  one with each key \<^verbatim>\<open>method:path\<close> and discards the later candidates with that key:
  the endpoint list it returns is a subsequence of the candidates, its keys are pairwise
  different, the first candidate with the key of any candidate is in it, and every
  endpoint in it is the first candidate with its key. Candidates with the same pair of
  method and path have the same key, so the list has at most one endpoint for each pair,
  and every endpoint in it is the first candidate with its pair.
\<close>

theorem html_endpoints_deduplicated:
  "html_extractEndpoints URL dollar = first_by endpoint_key (endpoint_candidates URL dollar) {}
   \<and> subseq (html_extractEndpoints URL dollar) (endpoint_candidates URL dollar)
   \<and> distinct (map endpoint_key (html_extractEndpoints URL dollar))
   \<and> (\<forall>c \<in> set (endpoint_candidates URL dollar).
         \<exists>e \<in> set (html_extractEndpoints URL dollar).
           List.find (\<lambda>d. endpoint_key d = endpoint_key c) (endpoint_candidates URL dollar)
             = Some e)
   \<and> (\<forall>e \<in> set (html_extractEndpoints URL dollar).
         List.find (\<lambda>c. endpoint_key c = endpoint_key e) (endpoint_candidates URL dollar)
           = Some e)
   \<and> distinct (map method_path (html_extractEndpoints URL dollar))
   \<and> (\<forall>e \<in> set (html_extractEndpoints URL dollar).
         List.find (\<lambda>c. method_path c = method_path e) (endpoint_candidates URL dollar) = Some e)"
proof -
  let ?cs = "endpoint_candidates URL dollar"
  let ?out = "first_by endpoint_key ?cs {}"
  have out: "html_extractEndpoints URL dollar = ?out"
    by (simp add: html_extractEndpoints_def remove_duplicates_first_by)
  have s: "subseq ?out ?cs" by (rule first_by_subseq)
  have k: "distinct (map endpoint_key ?out)" by (rule first_by_distinct)
  then have d: "distinct (map method_path ?out)"
    using method_path_key by (rule distinct_map_coarser)
  have l: "\<forall>c \<in> set ?cs. \<exists>e \<in> set ?out.
             List.find (\<lambda>d. endpoint_key d = endpoint_key c) ?cs = Some e"
  proof
    fix c assume "c \<in> set ?cs"
    moreover have "endpoint_key c \<notin> {}" by simp
    ultimately show "\<exists>e \<in> set ?out.
        List.find (\<lambda>d. endpoint_key d = endpoint_key c) ?cs = Some e"
      by (rule first_by_keeps)
  qed
  have u: "\<forall>e \<in> set ?out. List.find (\<lambda>c. endpoint_key c = endpoint_key e) ?cs = Some e"
  proof
    fix e assume "e \<in> set ?out"
    then show "List.find (\<lambda>c. endpoint_key c = endpoint_key e) ?cs = Some e"
      by (rule first_by_find)
  qed
  have f: "\<forall>e \<in> set ?out. List.find (\<lambda>c. method_path c = method_path e) ?cs = Some e"
  proof
    fix e assume "e \<in> set ?out"
    then have 1: "List.find (\<lambda>c. endpoint_key c = endpoint_key e) ?cs = Some e"
      by (rule first_by_find)
    have 2: "\<forall>x. method_path x = method_path e \<longrightarrow> endpoint_key x = endpoint_key e"
      using method_path_key by blast
    have 3: "method_path e = method_path e" ..
    show "List.find (\<lambda>c. method_path c = method_path e) ?cs = Some e"
      using 1 2 3 by (rule find_stronger_predicate)
  qed
  from s k l u d f show ?thesis unfolding out by (intro conjI refl)
qed

lemma users_twice_candidates:
  "map method_path (endpoint_candidates simple_URL users_twice)
     = [(''GET'', ''/users''), (''GET'', ''/users'')]"
  by code_simp

lemma users_twice_descriptions:
  "map ep_description (endpoint_candidates simple_URL users_twice)
     = [''Returns the list of users.'', ''Call it like this:'']"
  by code_simp

lemma users_twice_endpoints:
  "map ep_description (html_extractEndpoints simple_URL users_twice)
     = [''Returns the list of users.'']"
  by code_simp

lemma users_twice_first:
  "method_path (hd (html_extractEndpoints simple_URL users_twice)) = (''GET'', ''/users'')"
  by code_simp

lemma users_twice_last:
  "last (endpoint_candidates simple_URL users_twice)
     \<in> set (endpoint_candidates simple_URL users_twice)"
  by code_simp

lemma users_twice_last_key:
  "endpoint_key (last (endpoint_candidates simple_URL users_twice)) = ''GET:/users''"
  by code_simp

text \<open>
  Claim C7 at a document where a heading and a code block both read \<^verbatim>\<open>GET /users\<close>:
  both are candidates, and the one endpoint returned is the heading's, found first; it
  is the endpoint kept for the key of the code block's candidate.
\<close>

theorem html_endpoints_deduplicated_witness:
  "map method_path (endpoint_candidates simple_URL users_twice)
     = [(''GET'', ''/users''), (''GET'', ''/users'')]
   \<and> map ep_description (endpoint_candidates simple_URL users_twice)
     = [''Returns the list of users.'', ''Call it like this:'']
   \<and> map ep_description (html_extractEndpoints simple_URL users_twice)
     = [''Returns the list of users.'']
   \<and> distinct (map method_path (html_extractEndpoints simple_URL users_twice))
   \<and> List.find (\<lambda>c. method_path c = (''GET'', ''/users''))
        (endpoint_candidates simple_URL users_twice)
     = Some (hd (html_extractEndpoints simple_URL users_twice))
   \<and> last (endpoint_candidates simple_URL users_twice)
        \<in> set (endpoint_candidates simple_URL users_twice)
   \<and> (\<exists>e \<in> set (html_extractEndpoints simple_URL users_twice).
         List.find (\<lambda>d. endpoint_key d = ''GET:/users'')
           (endpoint_candidates simple_URL users_twice) = Some e)"
proof -
  let ?out = "html_extractEndpoints simple_URL users_twice"
  let ?cands = "endpoint_candidates simple_URL users_twice"
  note inst = html_endpoints_deduplicated [of simple_URL users_twice]
  from users_twice_endpoints have "?out \<noteq> []" by auto
  then have m: "hd ?out \<in> set ?out" by simp
  note rest = inst [THEN conjunct2, THEN conjunct2, THEN conjunct2]
  from rest [THEN conjunct2, THEN conjunct2]
  have d: "distinct (map method_path ?out)" by (rule conjunct1)
  from rest [THEN conjunct2, THEN conjunct2]
  have "\<forall>e \<in> set ?out. List.find (\<lambda>c. method_path c = method_path e) ?cands = Some e"
    by (rule conjunct2)
  then have "List.find (\<lambda>c. method_path c = method_path (hd ?out)) ?cands = Some (hd ?out)"
    using m by (rule bspec)
  then have f: "List.find (\<lambda>c. method_path c = (''GET'', ''/users'')) ?cands = Some (hd ?out)"
    by (simp only: users_twice_first)
  from rest have "\<forall>c \<in> set ?cands. \<exists>e \<in> set ?out.
      List.find (\<lambda>d. endpoint_key d = endpoint_key c) ?cands = Some e"
    by (rule conjunct1)
  then have "\<exists>e \<in> set ?out.
      List.find (\<lambda>d. endpoint_key d = endpoint_key (last ?cands)) ?cands = Some e"
    using users_twice_last by (rule bspec)
  then have l: "\<exists>e \<in> set ?out. List.find (\<lambda>d. endpoint_key d = ''GET:/users'') ?cands = Some e"
    by (simp only: users_twice_last_key)
  from users_twice_candidates users_twice_descriptions users_twice_endpoints d f
    users_twice_last l
  show ?thesis by (intro conjI)
qed

text \<open>
  By pair the claim fails: the key is not one to one. A heading \<^verbatim>\<open>put:/a PUT\<close> is read
  by the second method pattern as the method \<^verbatim>\<open>PUT:/A\<close> with the path \<^verbatim>\<open>/PUT\<close>, and a
  code block \<^verbatim>\<open>http://h/A:/PUT\<close> as the method \<^verbatim>\<open>PUT\<close> with the path \<^verbatim>\<open>/A:/PUT\<close>.
  The two pairs differ and have the same key, and the second endpoint, the first and
  only candidate with its pair, is discarded.
\<close>

theorem html_first_of_pair_discarded:
  "map method_path (endpoint_candidates simple_URL colliding_keys)
     = [(''PUT:/A'', ''/PUT''), (''PUT'', ''/A:/PUT'')]
   \<and> map endpoint_key (endpoint_candidates simple_URL colliding_keys)
     = [''PUT:/A:/PUT'', ''PUT:/A:/PUT'']
   \<and> map method_path (html_extractEndpoints simple_URL colliding_keys)
     = [(''PUT:/A'', ''/PUT'')]"
  by code_simp

section \<open>The HTML normalizer: a URL the platform rejects\<close>

lemma broken_patterns: "base_url_from_patterns broken_url_code_block base_url_patterns = None"
  by code_simp

lemma broken_blocks:
  "map el_text (broken_url_code_block ''code, pre'') = [''http://['']"
  by code_simp

lemma broken_match: "match_url ''http://['' = Some ''http://[''"
  by code_simp

text \<open>
  Claim C2 does not hold of the code. For the document \<^verbatim>\<open><code>http://[</code>\<close>
  the base-URL inference finds the URL-shaped token \<^verbatim>\<open>http://[\<close> in a code block
  and passes it to the URL constructor outside any \<^verbatim>\<open>try\<close>; the constructor
  rejects it, and \<open>parseHtmlDocs\<close> raises instead of returning a model.
\<close>

theorem parseHtmlDocs_raises_on_invalid_url:
  assumes "URL ''http://['' = None"
  shows "parseHtmlDocs URL broken_url_code_block
           = Inl ''Failed to parse HTML documentation: Invalid URL''"
proof -
  from broken_blocks obtain block where b: "broken_url_code_block ''code, pre'' = [block]"
    and t: "el_text block = ''http://[''"
    by (cases "broken_url_code_block ''code, pre''") auto
  from t have "selection_text [block] = ''http://[''" by (simp add: selection_text_def)
  with broken_match assms have "base_url_from_code URL [block] = Inl ''Invalid URL''" by simp
  with b broken_patterns have "html_extractBaseUrl URL broken_url_code_block = Inl ''Invalid URL''"
    by (simp add: html_extractBaseUrl_def)
  then show ?thesis by (simp add: parseHtmlDocs_def)
qed

lemma simple_URL_rejects: "simple_URL ''http://['' = None"
  by code_simp

text \<open>Claim C2: the failing input, with the stand-in for the URL constructor.\<close>

theorem parseHtmlDocs_raises_on_invalid_url_witness:
  "simple_URL ''http://['' = None
   \<and> parseHtmlDocs simple_URL broken_url_code_block
       = Inl ''Failed to parse HTML documentation: Invalid URL''"
  using parseHtmlDocs_raises_on_invalid_url [of simple_URL, OF simple_URL_rejects]
    simple_URL_rejects
  by (intro conjI)

section \<open>Endpoint paths\<close>

lemma postman_endpoint_path:
  assumes "extractEndpointFromRequest URL it parentPath = Inr (Some e)"
  shows "ep_path e \<noteq> [] \<and> startsWith (ep_path e) ''/''"
proof -
  from assms have "\<exists>p. ep_path e = (if startsWith p ''/'' then p else ''/'' @ p)"
    by (auto simp: extractEndpointFromRequest_def Let_def
        split: pm_item.splits option.splits sum.splits pm_request_value.splits prod.splits)
  then obtain p where "ep_path e = (if startsWith p ''/'' then p else ''/'' @ p)" ..
  then show ?thesis by (auto simp: startsWith_def)
qed

lemma first_match_at: "first_match f s = Some r \<Longrightarrow> \<exists>t. f t = Some r"
  by (induction s) (auto split: option.splits)

lemma toLowerCase_append: "toLowerCase (a @ b) = toLowerCase a @ toLowerCase b"
  by (simp add: toLowerCase_def)

lemma toLowerCase_take: "toLowerCase (take k s) = take k (toLowerCase s)"
  by (simp add: toLowerCase_def take_map)

lemma prefix_take_append: "prefix p l \<Longrightarrow> k = length p \<Longrightarrow> prefix p (take k l @ r)"
  by (auto simp: prefix_def)

lemma url_at_http:
  assumes "url_at s = Some m"
  shows "prefix ''http://'' (toLowerCase m) \<or> prefix ''https://'' (toLowerCase m)"
proof (cases "prefix ''https://'' (toLowerCase s)")
  case True
  with assms obtain run where "m = take 8 s @ run"
    by (auto simp: url_at_def Let_def split: if_splits)
  then have "toLowerCase m = take 8 (toLowerCase s) @ toLowerCase run"
    by (simp add: toLowerCase_append toLowerCase_take)
  moreover have "prefix ''https://'' (take 8 (toLowerCase s) @ toLowerCase run)"
    using True by (rule prefix_take_append) simp
  ultimately show ?thesis by simp
next
  case False
  show ?thesis
  proof (cases "prefix ''http://'' (toLowerCase s)")
    case True
    with False assms obtain run where "m = take 7 s @ run"
      by (auto simp: url_at_def Let_def split: if_splits)
    then have "toLowerCase m = take 7 (toLowerCase s) @ toLowerCase run"
      by (simp add: toLowerCase_append toLowerCase_take)
    moreover have "prefix ''http://'' (take 7 (toLowerCase s) @ toLowerCase run)"
      using True by (rule prefix_take_append) simp
    ultimately show ?thesis by simp
  next
    case F2: False
    with False assms show ?thesis by (simp add: url_at_def Let_def)
  qed
qed

lemma match_url_http:
  assumes "match_url s = Some m"
  shows "prefix ''http://'' (toLowerCase m) \<or> prefix ''https://'' (toLowerCase m)"
proof -
  from assms have "first_match url_at s = Some m" by (simp add: match_url_def)
  from first_match_at [OF this] obtain t where "url_at t = Some m" ..
  then show ?thesis by (rule url_at_http)
qed

lemma clean_path_rooted: "prefix ''/'' (clean_path p)"
  by (simp add: clean_path_def Let_def startsWith_def)

lemma html_endpoint_path:
  assumes "parseEndpointFromText URL t el = Some e" and "http_paths_rooted URL"
  shows "prefix ''/'' (ep_path e)"
proof (cases "first_pattern_match methodPatterns t")
  case (Some m)
  with assms(1) have "e = endpoint_from_match t el m"
    by (simp add: parseEndpointFromText_def)
  then have "ep_path e = clean_path (snd m)"
    by (simp add: endpoint_from_match_def Let_def)
  then show ?thesis by (simp add: clean_path_rooted)
next
  case None
  show ?thesis
  proof (cases "match_url t")
    case N: None
    with None assms(1) show ?thesis by (simp add: parseEndpointFromText_def)
  next
    case (Some urlMatch)
    with None assms(1) have r: "endpoint_from_url URL t el urlMatch = Some e"
      by (simp add: parseEndpointFromText_def)
    show ?thesis
    proof (cases "URL urlMatch")
      case U: None
      with r show ?thesis by (simp add: endpoint_from_url_def)
    next
      case U: (Some url)
      with r have "ep_path e = url_pathname url"
        by (auto simp: endpoint_from_url_def Let_def)
      moreover from Some
      have "prefix ''http://'' (toLowerCase urlMatch) \<or> prefix ''https://'' (toLowerCase urlMatch)"
        by (rule match_url_http)
      with U assms(2) have "prefix ''/'' (url_pathname url)"
        unfolding http_paths_rooted_def by blast
      ultimately show ?thesis by simp
    qed
  qed
qed

lemma first_by_subset: "set (first_by key xs seen) \<subseteq> set xs"
  by (induction xs arbitrary: seen) auto

lemma html_endpoint_origin:
  assumes "e \<in> set (html_extractEndpoints URL dollar)"
  shows "\<exists>t el. parseEndpointFromText URL t el = Some e"
proof -
  from assms have "e \<in> set (endpoint_candidates URL dollar)"
    using first_by_subset [of endpoint_key "endpoint_candidates URL dollar" "{}"]
    by (auto simp: html_extractEndpoints_def remove_duplicates_first_by)
  then obtain t el where "parseEndpointFromText URL t el = Some e"
    by (auto simp: endpoint_candidates_def List.map_filter_def)
  then show ?thesis by blast
qed

lemma swagger_endpoint_path:
  assumes "e \<in> set (swagger_extractEndpoints api)"
  shows "ep_path e \<in> fst ` set (or_list (oa_paths api))"
proof -
  from assms obtain path pathItem verb operation
    where m: "(path, pathItem) \<in> set (or_list (oa_paths api))"
      and e: "e = swagger_endpoint api path verb operation"
    by (auto simp: swagger_extractEndpoints_def split: if_splits)
  from e have "ep_path e = path" by (simp add: swagger_endpoint_def)
  moreover from m have "fst (path, pathItem) \<in> fst ` set (or_list (oa_paths api))"
    by (rule imageI)
  ultimately show ?thesis by simp
qed

lemma path_part_rooted: "prefix ''/'' (path_part r)"
proof (cases "dropWhile (\<lambda>c. \<not> authority_end c) r")
  case Nil
  show ?thesis unfolding path_part_def Nil by simp
next
  case (Cons c cs)
  then have a: "authority_end c"
    using hd_dropWhile [of "\<lambda>c. \<not> authority_end c" r] by simp
  show ?thesis
  proof (cases "path_end c")
    case True
    then show ?thesis unfolding path_part_def Cons by simp
  next
    case False
    with a have "c = CHR ''/''" by (simp add: authority_end_def path_end_def)
    with False show ?thesis unfolding path_part_def Cons by simp
  qed
qed

lemma simple_URL_pathname:
  assumes "simple_URL s = Some u"
  shows "\<exists>r. url_pathname u = path_part r"
proof (cases "scheme_split s")
  case None
  with assms show ?thesis by (simp add: simple_URL_def)
next
  case (Some pr)
  obtain proto r where "pr = (proto, r)" by (cases pr)
  with Some assms have "url_pathname u = path_part r"
    by (auto simp: simple_URL_def split: if_splits)
  then show ?thesis by blast
qed

lemma simple_URL_rooted: "http_paths_rooted simple_URL"
proof -
  have "prefix ''/'' (url_pathname u)" if "simple_URL s = Some u" for s u
  proof -
    from that obtain r where "url_pathname u = path_part r"
      using simple_URL_pathname by blast
    then show ?thesis by (simp add: path_part_rooted)
  qed
  then show ?thesis unfolding http_paths_rooted_def by blast
qed

text \<open>
  Claim C6, as amended. Every endpoint the Postman normalizer returns has a path that is
  non-empty and begins with \<^verbatim>\<open>/\<close>; so has every endpoint the HTML normalizer returns,
  given that the pathname of an \<^verbatim>\<open>http\<close> or \<^verbatim>\<open>https\<close> URL parsed by the platform
  begins with \<^verbatim>\<open>/\<close>; the path of an endpoint the OpenAPI normalizer returns is a key
  of the document's \<^verbatim>\<open>paths\<close> object.
\<close>

theorem endpoint_paths_rooted:
  assumes "http_paths_rooted URL"
  shows "(\<forall>e \<in> set (returned (postman_extractEndpoints URL collection)).
            ep_path e \<noteq> [] \<and> startsWith (ep_path e) ''/'')
       \<and> (\<forall>e \<in> set (html_extractEndpoints URL dollar).
            ep_path e \<noteq> [] \<and> startsWith (ep_path e) ''/'')
       \<and> (\<forall>e \<in> set (swagger_extractEndpoints api).
            ep_path e \<in> fst ` set (or_list (oa_paths api)))"
proof (intro conjI ballI)
  fix e assume "e \<in> set (returned (postman_extractEndpoints URL collection))"
  then obtain eps where "postman_extractEndpoints URL collection = Inr eps" and "e \<in> set eps"
    by (cases "postman_extractEndpoints URL collection") (simp_all add: returned_def)
  from postman_endpoint_origin [OF this]
  obtain it parentPath where "extractEndpointFromRequest URL it parentPath = Inr (Some e)"
    by (elim exE)
  then have p: "ep_path e \<noteq> [] \<and> startsWith (ep_path e) ''/''"
    by (rule postman_endpoint_path)
  from p show "ep_path e \<noteq> []" by (rule conjunct1)
  from p show "startsWith (ep_path e) ''/''" by (rule conjunct2)
next
  fix e assume "e \<in> set (html_extractEndpoints URL dollar)"
  from html_endpoint_origin [OF this]
  obtain t el where "parseEndpointFromText URL t el = Some e" by (elim exE)
  then have p: "prefix ''/'' (ep_path e)" using assms by (rule html_endpoint_path)
  then show "ep_path e \<noteq> []" by auto
  from p show "startsWith (ep_path e) ''/''" by (simp add: startsWith_def)
next
  fix e assume "e \<in> set (swagger_extractEndpoints api)"
  then show "ep_path e \<in> fst ` set (or_list (oa_paths api))"
    by (rule swagger_endpoint_path)
qed

lemma user_by_id_paths:
  "map ep_path (returned (postman_extractEndpoints simple_URL user_by_id)) = [''/users/{id}'']"
  by code_simp

lemma users_twice_paths:
  "map ep_path (html_extractEndpoints simple_URL users_twice) = [''/users'']"
  by code_simp

lemma pets_api_paths:
  "map ep_path (swagger_extractEndpoints pets_api) = [''/pets/{id}'']"
  by code_simp

lemma singleton_map_hd: "map f xs = [y] \<Longrightarrow> hd xs \<in> set xs \<and> f (hd xs) = y"
  by (cases xs) auto

text \<open>
  Claim C6 as amended, at the Postman request \<^verbatim>\<open>users/{id}\<close>, at the HTML document
  with \<^verbatim>\<open>GET /users\<close> and at an OpenAPI document with the path \<^verbatim>\<open>/pets/{id}\<close>.
\<close>

theorem endpoint_paths_rooted_witness:
  "map ep_path (returned (postman_extractEndpoints simple_URL user_by_id)) = [''/users/{id}'']
   \<and> startsWith (ep_path (hd (returned (postman_extractEndpoints simple_URL user_by_id)))) ''/''
   \<and> map ep_path (html_extractEndpoints simple_URL users_twice) = [''/users'']
   \<and> startsWith (ep_path (hd (html_extractEndpoints simple_URL users_twice))) ''/''
   \<and> map ep_path (swagger_extractEndpoints pets_api) = [''/pets/{id}'']
   \<and> ep_path (hd (swagger_extractEndpoints pets_api)) \<in> fst ` set (or_list (oa_paths pets_api))"
proof -
  let ?pm = "returned (postman_extractEndpoints simple_URL user_by_id)"
  note inst = endpoint_paths_rooted [OF simple_URL_rooted, of user_by_id users_twice pets_api]
  from inst have 1: "\<forall>e \<in> set ?pm. ep_path e \<noteq> [] \<and> startsWith (ep_path e) ''/''"
    by (rule conjunct1)
  from inst [THEN conjunct2]
  have 2: "\<forall>e \<in> set (html_extractEndpoints simple_URL users_twice).
      ep_path e \<noteq> [] \<and> startsWith (ep_path e) ''/''" by (rule conjunct1)
  from inst [THEN conjunct2]
  have 3: "\<forall>e \<in> set (swagger_extractEndpoints pets_api).
      ep_path e \<in> fst ` set (or_list (oa_paths pets_api))" by (rule conjunct2)
  from singleton_map_hd [OF user_by_id_paths]
  have "hd ?pm \<in> set ?pm" by (rule conjunct1)
  with 1 have "ep_path (hd ?pm) \<noteq> [] \<and> startsWith (ep_path (hd ?pm)) ''/''"
    by (rule bspec)
  then have a: "startsWith (ep_path (hd ?pm)) ''/''"
    by (rule conjunct2)
  from singleton_map_hd [OF users_twice_paths]
  have "hd (html_extractEndpoints simple_URL users_twice)
          \<in> set (html_extractEndpoints simple_URL users_twice)" by (rule conjunct1)
  with 2 have "ep_path (hd (html_extractEndpoints simple_URL users_twice)) \<noteq> []
      \<and> startsWith (ep_path (hd (html_extractEndpoints simple_URL users_twice))) ''/''"
    by (rule bspec)
  then have b: "startsWith (ep_path (hd (html_extractEndpoints simple_URL users_twice))) ''/''"
    by (rule conjunct2)
  from singleton_map_hd [OF pets_api_paths]
  have "hd (swagger_extractEndpoints pets_api) \<in> set (swagger_extractEndpoints pets_api)"
    by (rule conjunct1)
  with 3
  have c: "ep_path (hd (swagger_extractEndpoints pets_api)) \<in> fst ` set (or_list (oa_paths pets_api))"
    by (rule bspec)
  from user_by_id_paths a users_twice_paths b pets_api_paths c show ?thesis by (intro conjI)
qed

text \<open>
  Claim C6, as stated, fails for each of the three normalizers. For the Postman request
  with the path segments \<^verbatim>\<open>users\<close> and \<^verbatim>\<open>{id}\<close> the endpoint's path is
  \<^verbatim>\<open>/users/{id}\<close> and its parameter list is empty, so the placeholder \<^verbatim>\<open>{id}\<close> has no
  path parameter. For the HTML heading \<^verbatim>\<open>GET /users/{user-id}\<close> the path keeps the
  placeholder \<^verbatim>\<open>{user-id}\<close>, which the parameter pattern \<^verbatim>\<open>{(\w+)}\<close> does not match.
  For the OpenAPI document with the path keys \<^verbatim>\<open>pets/{id}\<close> and the empty string, whose
  operations declare no parameters, the endpoint paths are these keys: the first does
  not begin with \<^verbatim>\<open>/\<close> and its placeholder has no path parameter, the second is empty.
\<close>

theorem endpoint_invariant_fails:
  "returned (postman_extractEndpoints simple_URL user_by_id) = [user_by_id_endpoint]
   \<and> ep_path user_by_id_endpoint = ''/users/{id}''
   \<and> placeholders (ep_path user_by_id_endpoint) = [''id'']
   \<and> ep_parameters user_by_id_endpoint = []
   \<and> \<not> path_invariant user_by_id_endpoint
   \<and> map (\<lambda>e. (ep_path e, placeholders (ep_path e), ep_parameters e, path_invariant e))
        (html_extractEndpoints simple_URL hyphen_placeholder)
      = [(''/users/{user-id}'', [''user-id''], [], False)]
   \<and> map (\<lambda>e. (ep_path e, startsWith (ep_path e) ''/'', placeholders (ep_path e),
                 ep_parameters e, path_invariant e))
        (swagger_extractEndpoints unrooted_api)
      = [(''pets/{id}'', False, [''id''], [], False), ([], False, [], [], False)]"
  by code_simp
section \<open>The emitters: declared parameters\<close>





text \<open>
  The Go and the PHP emitter do not replace the empty parameter list of the signature:
  they append the declarations after it, and the method is declared without parameters.
\<close>

lemma go_php_declare_nothing:
  "declared_parameters (go_generateEndpointMethod update_user) ''UpdateUser'' = []"
  "declared_parameters (php_generateEndpointMethod update_user) ''updateUser'' = []"
  by code_simp+













section \<open>The emitted request handlers: the backoff delay\<close>

lemma three_attempts_on_500:
  "node_makeRequest 3 always_500
     = \<lparr>attempts = 3, sleeps = [1000, 2000], ending = Surfaced 3 (FailsWithStatus 500)\<rparr>"
  "java_makeRequest 3 always_500
     = \<lparr>attempts = 3, sleeps = [1000, 2000], ending = Surfaced 3 (FailsWithStatus 500)\<rparr>"
  "go_makeRequest 3 always_500
     = \<lparr>attempts = 3, sleeps = [1000, 2000], ending = Surfaced 3 (FailsWithStatus 500)\<rparr>"
  by code_simp+

lemma one_attempt_on_404:
  "node_makeRequest 3 always_404
     = \<lparr>attempts = 1, sleeps = [], ending = Surfaced 1 (FailsWithStatus 404)\<rparr>"
  "java_makeRequest 3 always_404
     = \<lparr>attempts = 1, sleeps = [], ending = Surfaced 1 (FailsWithStatus 404)\<rparr>"
  "go_makeRequest 3 always_404
     = \<lparr>attempts = 1, sleeps = [], ending = Surfaced 1 (FailsWithStatus 404)\<rparr>"
  by code_simp+

text \<open>
  Claim C3 does not hold of the Java and Go request handlers. With 60 as the maximum number
  of attempts and a server that answers every attempt with the status 500, the delay after
  the 55th attempt should be 10000 milliseconds. In the Java handler the product
  \<open>1000 * 2\<^sup>5\<^sup>4\<close> wraps to a negative number, \<^verbatim>\<open>Thread.sleep\<close> raises
  \<^verbatim>\<open>IllegalArgumentException\<close>, and the call ends after 55 attempts with that exception
  and not with the failure of the last attempt. In the Go handler the same product wraps,
  the duration is not positive, and the attempts 56 to 60 follow without any delay.
\<close>

theorem backoff_overflow:
  "java_makeRequest 60 always_500
     = \<lparr>attempts = 55, sleeps = [1000, 2000, 4000, 8000] @ replicate 50 10000,
        ending = Raised ''IllegalArgumentException''\<rparr>
   \<and> go_makeRequest 60 always_500
     = \<lparr>attempts = 60, sleeps = [1000, 2000, 4000, 8000] @ replicate 50 10000 @ replicate 5 0,
        ending = Surfaced 60 (FailsWithStatus 500)\<rparr>
   \<and> java_delay_ms 55 = - 432345564227567616
   \<and> go_delay_ns 55 = - 9223372036854775808
   \<and> backoff_ms 55 = 10000"
  by code_simp

end
